theory Spec2Isabelle
  imports Main "HOL-Library.Sublist" "HOL-Library.Word"
begin

section \<open>Instrumentation phase: syntax trees and hook dispatch\<close>

text \<open>
  The trampoline builder and the hook dispatcher generator (\<open>buildTrampolineTypes\<close>,
  \<open>callBeforeHook\<close>, \<open>callAfterHook\<close>) are exercised by the unit tests of package
  \<open>instrument\<close>, but their bodies are not among the source files. They are modelled here
  from sections 3, 4.2, 4.3 and 7 of the specification; the error texts are the ones the
  unit tests expect.
\<close>

subsection \<open>Data model\<close>

text \<open>A formal parameter: a name and a type expression.\<close>

record Field =
  FieldName :: string
  FieldType :: string

text \<open>One formal of a hook: the variadic flag and the 0-based position in the hook's signature.\<close>

record ParamTrait =
  IsVariadic :: bool
  Index :: nat

text \<open>
  Expressions and statements of generated code, as far as the generator builds them.
  \<open>NewHookContext\<close> is the HookContext value constructed in-line, \<open>VariadicExpand e\<close> is
  \<open>e...\<close>, \<open>HooksEnabled r\<close> is the runtime predicate "hooks enabled for rule r", and
  \<open>DeferRecover\<close> is the deferred recovery clause that discards a panic.
\<close>

datatype expr =
    Ident string
  | NewHookContext
  | VariadicExpand expr
  | CallExpr string "expr list"
  | HooksEnabled string

datatype stmt =
    ReturnStmt
  | ExprStmt expr
  | IfStmt expr "stmt list"
  | DeferRecover

record FuncDecl =
  Name :: string
  Params :: "Field list"
  Results :: "Field list"
  Body :: "stmt list"

record TargetFunction =
  QualifiedName :: string
  Receiver :: "Field option"
  TargetParams :: "Field list"
  TargetResults :: "Field list"

text \<open>The rule as the unit tests build it: an absent hook is the empty string.\<close>

record InstFuncRule =
  RuleName :: string
  Target :: string
  Func :: string
  Before :: string
  After :: string

record InstrumentPhase =
  targetFunc :: TargetFunction
  beforeHookFunc :: FuncDecl
  afterHookFunc :: FuncDecl

datatype kind = BeforeKind | AfterKind

text \<open>The error kinds of section 7.\<close>

datatype error =
    TargetNotFound
  | HookSignatureError string
  | HookArityError nat nat
  | ASTMalformed
  | Cancelled

subsection \<open>Rendering of the arity error\<close>

definition digit :: "nat \<Rightarrow> char" where
  "digit d = ''0123456789'' ! d"

fun show_nat :: "nat \<Rightarrow> string" where
  "show_nat n = (if n < 10 then [digit n] else show_nat (n div 10) @ [digit (n mod 10)])"

declare show_nat.simps [simp del]

text \<open>
  Modelled from the spec: the message of \<open>HookArityError\<close> must contain both counts; the
  wording is the one the unit tests look for (\<open>errContains\<close> in \<open>TestCallBeforeHook\<close> and
  \<open>TestCallAfterHook\<close>).
\<close>

definition available_noun :: "kind \<Rightarrow> string" where
  "available_noun k = (case k of BeforeKind \<Rightarrow> ''target function'' | AfterKind \<Rightarrow> ''trampoline'')"

fun error_message :: "kind \<Rightarrow> error \<Rightarrow> string" where
  "error_message k (HookArityError declared available) =
     ''hook declares '' @ show_nat declared @ '' params but '' @ available_noun k
       @ '' only has '' @ show_nat available @ '' params available''"
| "error_message k TargetNotFound = ''target not found''"
| "error_message k (HookSignatureError reason) = ''hook signature error: '' @ reason"
| "error_message k ASTMalformed = ''malformed AST''"
| "error_message k Cancelled = ''cancelled''"

subsection \<open>Trampoline builder\<close>

definition HookContextType :: string where
  "HookContextType = ''HookContext''"

definition hookContextField :: Field where
  "hookContextField = \<lparr>FieldName = ''ctx'', FieldType = HookContextType\<rparr>"

definition receiverFields :: "TargetFunction \<Rightarrow> Field list" where
  "receiverFields t = (case Receiver t of None \<Rightarrow> [] | Some r \<Rightarrow> [r])"

text \<open>
  Modelled from the spec: the body of \<open>buildTrampolineTypes\<close> is not among the sources.
  Section 4.2: the Before trampoline's parameters are a clone of the target's parameter list,
  receiver first when present, and it has no results; the After trampoline's parameters are a
  HookContext parameter prepended to receiver, parameters and results.
\<close>

definition buildTrampolineTypes :: "InstrumentPhase \<Rightarrow> InstrumentPhase" where
  "buildTrampolineTypes ip =
     (let t = targetFunc ip;
          ins = receiverFields t @ TargetParams t
      in ip\<lparr>beforeHookFunc := (beforeHookFunc ip)\<lparr>Params := ins, Results := []\<rparr>,
            afterHookFunc := (afterHookFunc ip)
              \<lparr>Params := hookContextField # (ins @ TargetResults t), Results := []\<rparr>\<rparr>)"

subsection \<open>Hook dispatcher generator\<close>

text \<open>
  Modelled from the spec: section 4.3, parameter matching rule. For the After trampoline
  \<open>H[i]\<close> maps to \<open>A[i]\<close> directly, "both sequences begin with HookContext": position 0 of
  the call is the trampoline's own leading formal, the HookContext the trampoline was invoked
  with (section 4.4, step 3; scenario S2 draws the context from position 0 of the
  trampoline's formals, and the arity rule counts that formal among the available ones). The
  Before trampoline has no HookContext formal: position 0 of its call is the HookContext
  value constructed in-line at dispatch time, and position \<open>i \<ge> 1\<close> is formal \<open>A[i-1]\<close>.
  An argument at a position \<open>i \<ge> 1\<close> is expanded with the variadic marker when trait \<open>i\<close>
  is variadic. (The first trait is reserved for HookContext and is never variadic,
  section 3.) The first bullet of the rule calls the HookContext "synthesized in-line" for
  both trampolines; an After trampoline receives its HookContext as a parameter, and the
  positional rule passes that one on.
\<close>

definition formal_index :: "kind \<Rightarrow> nat \<Rightarrow> nat" where
  "formal_index k i = (case k of BeforeKind \<Rightarrow> i - 1 | AfterKind \<Rightarrow> i)"

definition hook_arg :: "kind \<Rightarrow> Field list \<Rightarrow> ParamTrait list \<Rightarrow> nat \<Rightarrow> expr" where
  "hook_arg k A H i =
     (if i = 0
      then (case k of BeforeKind \<Rightarrow> NewHookContext
                    | AfterKind \<Rightarrow> Ident (FieldName (A ! 0)))
      else let e = Ident (FieldName (A ! formal_index k i))
           in if IsVariadic (H ! i) then VariadicExpand e else e)"

definition hook_args :: "kind \<Rightarrow> Field list \<Rightarrow> ParamTrait list \<Rightarrow> expr list" where
  "hook_args k A H = map (hook_arg k A H) [0..<length H]"

text \<open>
  Modelled from the spec: section 4.3, arity. The hook may not declare more parameters
  than are available: \<open>|H| - 1 > |A|\<close> fails for Before, \<open>|H| > |A|\<close> fails for After.
  The counts are compared as the integers they are in the source language.
\<close>

definition available :: "kind \<Rightarrow> Field list \<Rightarrow> nat" where
  "available k A = (case k of BeforeKind \<Rightarrow> length A + 1 | AfterKind \<Rightarrow> length A)"

definition arity_exceeded :: "kind \<Rightarrow> Field list \<Rightarrow> ParamTrait list \<Rightarrow> bool" where
  "arity_exceeded k A H =
     (case k of BeforeKind \<Rightarrow> int (length H) - 1 > int (length A)
              | AfterKind \<Rightarrow> length H > length A)"

text \<open>
  Modelled from the spec: section 4.3, guarded emission and insertion point. One
  conditional statement, guarded by the "hooks enabled" predicate of the rule and holding the
  expression statement that calls the hook, is put before the trailing return. The deferred
  recovery clause is emitted once at function entry and reused. A body that does not end
  in a plain return has no insertion point (section 3 requires the return) and is reported as
  a malformed tree.
\<close>

definition guarded_call :: "string \<Rightarrow> string \<Rightarrow> expr list \<Rightarrow> stmt" where
  "guarded_call ruleName hookName args =
     IfStmt (HooksEnabled ruleName) [ExprStmt (CallExpr hookName args)]"

definition with_recovery :: "stmt list \<Rightarrow> stmt list" where
  "with_recovery ss = (case ss of DeferRecover # _ \<Rightarrow> ss | _ \<Rightarrow> DeferRecover # ss)"

definition insert_before_return :: "stmt \<Rightarrow> stmt list \<Rightarrow> error + stmt list" where
  "insert_before_return s ss =
     (if ss \<noteq> [] \<and> last ss = ReturnStmt
      then Inr (with_recovery (butlast ss) @ [s, ReturnStmt])
      else Inl ASTMalformed)"

definition emit_dispatch ::
  "kind \<Rightarrow> FuncDecl \<Rightarrow> string \<Rightarrow> string \<Rightarrow> ParamTrait list \<Rightarrow> error + FuncDecl" where
  "emit_dispatch k fd ruleName hookName H =
     (if arity_exceeded k (Params fd) H
      then Inl (HookArityError (length H) (available k (Params fd)))
      else case insert_before_return
                  (guarded_call ruleName hookName (hook_args k (Params fd) H)) (Body fd) of
             Inl e \<Rightarrow> Inl e
           | Inr ss \<Rightarrow> Inr (fd\<lparr>Body := ss\<rparr>))"

definition callBeforeHook ::
  "InstrumentPhase \<Rightarrow> InstFuncRule \<Rightarrow> ParamTrait list \<Rightarrow> error + InstrumentPhase" where
  "callBeforeHook ip t traits =
     (case emit_dispatch BeforeKind (beforeHookFunc ip) (RuleName t) (Before t) traits of
        Inl e \<Rightarrow> Inl e
      | Inr fd \<Rightarrow> Inr (ip\<lparr>beforeHookFunc := fd\<rparr>))"

definition callAfterHook ::
  "InstrumentPhase \<Rightarrow> InstFuncRule \<Rightarrow> ParamTrait list \<Rightarrow> error + InstrumentPhase" where
  "callAfterHook ip t traits =
     (case emit_dispatch AfterKind (afterHookFunc ip) (RuleName t) (After t) traits of
        Inl e \<Rightarrow> Inl e
      | Inr fd \<Rightarrow> Inr (ip\<lparr>afterHookFunc := fd\<rparr>))"

text \<open>
  Observers in the manner of the unit tests: the statement just before the last one, and the
  argument list of the call that opens the body of a conditional.
\<close>

definition dispatch_stmt :: "FuncDecl \<Rightarrow> stmt option" where
  "dispatch_stmt fd =
     (let ss = Body fd in if length ss < 2 then None else Some (ss ! (length ss - 2)))"

fun call_args :: "stmt option \<Rightarrow> expr list option" where
  "call_args (Some (IfStmt c (ExprStmt (CallExpr f args) # rest))) = Some args"
| "call_args s = None"

fun plain :: "expr \<Rightarrow> expr" where
  "plain (VariadicExpand e) = e"
| "plain e = e"

definition formal_exprs :: "Field list \<Rightarrow> expr list" where
  "formal_exprs A = map (\<lambda>f. Ident (FieldName f)) A"

text \<open>
  The sequence (HookContext, trampoline formals) that the hook's formals are matched against;
  for the After trampoline the HookContext is its own first formal.
\<close>

definition match_sequence :: "kind \<Rightarrow> Field list \<Rightarrow> expr list" where
  "match_sequence k A =
     (case k of BeforeKind \<Rightarrow> NewHookContext # formal_exprs A
              | AfterKind \<Rightarrow> formal_exprs A)"

section \<open>Runtime hooks of package nethttp\<close>

subsection \<open>The response writer wrapper\<close>

text \<open>
  An \<open>http.ResponseWriter\<close> value is either a writer of the server, known by an identity
  only, or a pointer to a \<open>responseWriter\<close> wrapper (which implements the interface too); the
  pointer is an address in the store of wrappers, \<open>None\<close> being the nil pointer.
\<close>

datatype http_writer = BaseWriter nat | WrapperPtr "nat option"

text \<open>The struct \<open>responseWriter\<close>; \<open>bytesWritten\<close> is an \<open>int64\<close>.\<close>

record responseWriter =
  ResponseWriter :: http_writer
  statusCode :: int
  bytesWritten :: "64 word"
  wroteHeader :: bool

definition StatusOK :: int where
  "StatusOK = 200"

definition newResponseWriter :: "http_writer \<Rightarrow> responseWriter" where
  "newResponseWriter w =
     \<lparr>ResponseWriter = w, statusCode = StatusOK, bytesWritten = 0, wroteHeader = False\<rparr>"

text \<open>
  A call that a wrapper forwards to its embedded \<open>ResponseWriter\<close>. The methods return the
  new state of the wrapper together with the calls they forwarded, in order.
\<close>

datatype forwarded = FwdWriteHeader int | FwdWrite "8 word list"

definition WriteHeader :: "responseWriter \<Rightarrow> int \<Rightarrow> responseWriter \<times> forwarded list" where
  "WriteHeader rw code =
     (if \<not> wroteHeader rw
      then (rw\<lparr>statusCode := code, wroteHeader := True\<rparr>, [FwdWriteHeader code])
      else (rw, []))"

text \<open>
  \<open>Write rw b (n, err)\<close>: the embedded writer answers this call with \<open>(n, err)\<close>, which the
  wrapper returns unchanged after adding \<open>int64(n)\<close> to \<open>bytesWritten\<close>.
\<close>

definition Write ::
  "responseWriter \<Rightarrow> 8 word list \<Rightarrow> int \<times> string option
     \<Rightarrow> (responseWriter \<times> forwarded list) \<times> (int \<times> string option)" where
  "Write rw b answer =
     (let (rw1, fw1) = (if \<not> wroteHeader rw then WriteHeader rw StatusOK else (rw, []));
          (n, err) = answer;
          rw2 = rw1\<lparr>bytesWritten := bytesWritten rw1 + word_of_int n\<rparr>
      in ((rw2, fw1 @ [FwdWrite b]), (n, err)))"

definition StatusCode :: "responseWriter \<Rightarrow> int" where
  "StatusCode rw = statusCode rw"

definition BytesWritten :: "responseWriter \<Rightarrow> 64 word" where
  "BytesWritten rw = bytesWritten rw"

text \<open>A sequence of calls on one wrapper; a \<open>Write\<close> carries the answer of the embedded writer.\<close>

datatype rw_call = WriteHeaderCall int | WriteCall "8 word list" int "string option"

fun apply_call :: "responseWriter \<times> forwarded list \<Rightarrow> rw_call \<Rightarrow> responseWriter \<times> forwarded list" where
  "apply_call (rw, fw) (WriteHeaderCall code) =
     (let (rw', fw') = WriteHeader rw code in (rw', fw @ fw'))"
| "apply_call (rw, fw) (WriteCall b n err) =
     (let ((rw', fw'), r) = Write rw b (n, err) in (rw', fw @ fw'))"

definition run_calls :: "http_writer \<Rightarrow> rw_call list \<Rightarrow> responseWriter \<times> forwarded list" where
  "run_calls w calls = foldl apply_call (newResponseWriter w, []) calls"

fun header_codes :: "forwarded list \<Rightarrow> int list" where
  "header_codes [] = []"
| "header_codes (FwdWriteHeader code # fs) = code # header_codes fs"
| "header_codes (FwdWrite b # fs) = header_codes fs"

fun write_counts :: "rw_call list \<Rightarrow> int list" where
  "write_counts [] = []"
| "write_counts (WriteHeaderCall code # cs) = write_counts cs"
| "write_counts (WriteCall b n err # cs) = n # write_counts cs"

text \<open>The status that the first call of a sequence sends: its own, or 200 for a \<open>Write\<close>.\<close>

fun first_status :: "rw_call list \<Rightarrow> int option" where
  "first_status [] = None"
| "first_status (WriteHeaderCall code # cs) = Some code"
| "first_status (WriteCall b n err # cs) = Some StatusOK"

subsection \<open>Values, requests and contexts\<close>

type_synonym panic = string

datatype ctxkey = clientContextKey | serverContextKey | OtherKey string

text \<open>
  \<open>context.Context\<close> (with the nil interface), the values stored in it, the two
  instrumentation contexts and \<open>*http.Request\<close> refer to each other. Of a request only its
  context matters here; the rest is \<open>RequestData\<close>. Pointers that may be nil are options.
\<close>

datatype gocontext =
    NilContext
  | Background
  | WithValue gocontext ctxkey ctxval
and ctxval =
    NilValue
  | ClientInstrPtr "clientInstrumentationContext option"
  | ServerInstrPtr "serverInstrumentationContext option"
  | OtherValue string
and clientInstrumentationContext =
    ClientInstrumentationContext (c_startTime: nat) (c_request: request) (c_ctx: gocontext)
and serverInstrumentationContext =
    ServerInstrumentationContext (s_startTime: nat) (s_request: request) (s_writer: "nat option")
and request =
    Request (RequestData: string) (RequestCtx: gocontext)

datatype response = Response (RespStatus: int)

text \<open>The dynamic values (\<open>any\<close>) that a HookContext hands out and takes.\<close>

datatype dyn =
    NilAny
  | RequestPtr "request option"
  | ResponsePtr "response option"
  | ErrorVal string
  | WriterVal http_writer
  | OtherAny string

text \<open>\<open>(*Request).Context\<close>: the background context stands in for a nil field.\<close>

definition Context :: "request \<Rightarrow> gocontext" where
  "Context r = (if RequestCtx r \<noteq> NilContext then RequestCtx r else Background)"

fun Value :: "gocontext \<Rightarrow> ctxkey \<Rightarrow> ctxval" where
  "Value NilContext key = NilValue"
| "Value Background key = NilValue"
| "Value (WithValue parent k v) key = (if k = key then v else Value parent key)"

text \<open>Type assertions \<open>x.(T)\<close> in their two-result form: the value (nil when it fails) and \<open>ok\<close>.\<close>

fun assert_Request :: "dyn \<Rightarrow> request option \<times> bool" where
  "assert_Request (RequestPtr p) = (p, True)"
| "assert_Request v = (None, False)"

fun assert_Response :: "dyn \<Rightarrow> response option \<times> bool" where
  "assert_Response (ResponsePtr p) = (p, True)"
| "assert_Response v = (None, False)"

fun assert_error :: "dyn \<Rightarrow> string option \<times> bool" where
  "assert_error (ErrorVal e) = (Some e, True)"
| "assert_error v = (None, False)"

fun assert_ResponseWriter :: "dyn \<Rightarrow> http_writer option \<times> bool" where
  "assert_ResponseWriter (WriterVal w) = (Some w, True)"
| "assert_ResponseWriter v = (None, False)"

fun assert_clientInstr :: "ctxval \<Rightarrow> clientInstrumentationContext option \<times> bool" where
  "assert_clientInstr (ClientInstrPtr p) = (p, True)"
| "assert_clientInstr v = (None, False)"

fun assert_serverInstr :: "ctxval \<Rightarrow> serverInstrumentationContext option \<times> bool" where
  "assert_serverInstr (ServerInstrPtr p) = (p, True)"
| "assert_serverInstr v = (None, False)"

record ClientResponse =
  CR_Response :: "response option"
  CR_Err :: "string option"

record ServerResponse =
  SR_StatusCode :: int
  SR_BytesWritten :: "64 word"

record clientInvocation =
  CI_Request :: request
  CI_Response :: ClientResponse
  CI_Err :: "string option"
  CI_StartTimeStamp :: nat
  CI_EndTimeStamp :: nat

record serverInvocation =
  SI_Request :: request
  SI_Response :: ServerResponse
  SI_StartTimeStamp :: nat
  SI_EndTimeStamp :: nat

subsection \<open>Collaborators and effects\<close>

text \<open>
  The HookContext is an interface of the runtime package, and the instrumenters, the clock
  and the logger are built elsewhere: they are parameters. Each call either returns or
  panics (\<open>Inl\<close>, or \<open>Some\<close> for a call without result).
\<close>

record HookContext =
  GetParam :: "int \<Rightarrow> panic + dyn"
  SetParam :: "int \<Rightarrow> dyn \<Rightarrow> panic option"
  GetReturnValCount :: "panic + int"
  GetReturnVal :: "int \<Rightarrow> panic + dyn"

record collaborators =
  Now :: nat
  clientStart :: "gocontext \<Rightarrow> request \<Rightarrow> panic + gocontext"
  clientEnd :: "gocontext \<Rightarrow> clientInvocation \<Rightarrow> panic option"
  serverStart :: "gocontext \<Rightarrow> request \<Rightarrow> panic + gocontext"
  serverEnd :: "gocontext \<Rightarrow> serverInvocation \<Rightarrow> panic option"
  loggerError :: "string \<Rightarrow> panic \<Rightarrow> panic option"

text \<open>The calls a hook makes on its collaborators, in order.\<close>

datatype event =
    CallGetParam int
  | CallSetParam int dyn
  | CallGetReturnValCount
  | CallGetReturnVal int
  | CallClientStart gocontext request
  | CallClientEnd gocontext clientInvocation
  | CallServerStart gocontext request
  | CallServerEnd gocontext serverInvocation
  | CallLoggerError string panic

text \<open>The state a hook runs in: the calls made so far and the store of wrappers.\<close>

record world =
  trace :: "event list"
  heap :: "responseWriter list"

type_synonym 'a go = "world \<Rightarrow> world \<times> (panic + 'a)"

definition ret :: "'a \<Rightarrow> 'a go" where
  "ret x = (\<lambda>w. (w, Inr x))"

definition throw :: "panic \<Rightarrow> 'a go" where
  "throw p = (\<lambda>w. (w, Inl p))"

definition bind :: "'a go \<Rightarrow> ('a \<Rightarrow> 'b go) \<Rightarrow> 'b go" where
  "bind m f = (\<lambda>w. case m w of (w', Inl p) \<Rightarrow> (w', Inl p) | (w', Inr x) \<Rightarrow> f x w')"

definition emit :: "event \<Rightarrow> unit go" where
  "emit e = (\<lambda>w. (w\<lparr>trace := trace w @ [e]\<rparr>, Inr ()))"

definition outcome :: "panic + 'a \<Rightarrow> 'a go" where
  "outcome r = (\<lambda>w. (w, r))"

definition completion :: "panic option \<Rightarrow> unit go" where
  "completion r = (case r of None \<Rightarrow> ret () | Some p \<Rightarrow> throw p)"

text \<open>
  \<open>defer func() { if rec := recover(); rec != nil { getLogger().Error(msg, "panic", rec) } }()\<close>:
  a panic of the body is stopped by \<open>recover\<close> and logged; a panic of the logging call
  itself leaves the deferred function and reaches the caller.
\<close>

definition recovering :: "collaborators \<Rightarrow> string \<Rightarrow> unit go \<Rightarrow> unit go" where
  "recovering E msg body =
     (\<lambda>w. case body w of
             (w', Inr u) \<Rightarrow> (w', Inr ())
           | (w', Inl rec) \<Rightarrow>
               bind (emit (CallLoggerError msg rec))
                    (\<lambda>u. completion (loggerError E msg rec)) w')"

definition callGetParam :: "HookContext \<Rightarrow> int \<Rightarrow> dyn go" where
  "callGetParam ictx i = bind (emit (CallGetParam i)) (\<lambda>u. outcome (GetParam ictx i))"

definition callSetParam :: "HookContext \<Rightarrow> int \<Rightarrow> dyn \<Rightarrow> unit go" where
  "callSetParam ictx i v = bind (emit (CallSetParam i v)) (\<lambda>u. completion (SetParam ictx i v))"

definition callGetReturnValCount :: "HookContext \<Rightarrow> int go" where
  "callGetReturnValCount ictx =
     bind (emit CallGetReturnValCount) (\<lambda>u. outcome (GetReturnValCount ictx))"

definition callGetReturnVal :: "HookContext \<Rightarrow> int \<Rightarrow> dyn go" where
  "callGetReturnVal ictx i = bind (emit (CallGetReturnVal i)) (\<lambda>u. outcome (GetReturnVal ictx i))"

definition callClientStart :: "collaborators \<Rightarrow> gocontext \<Rightarrow> request \<Rightarrow> gocontext go" where
  "callClientStart E c r = bind (emit (CallClientStart c r)) (\<lambda>u. outcome (clientStart E c r))"

definition callClientEnd :: "collaborators \<Rightarrow> gocontext \<Rightarrow> clientInvocation \<Rightarrow> unit go" where
  "callClientEnd E c i = bind (emit (CallClientEnd c i)) (\<lambda>u. completion (clientEnd E c i))"

definition callServerStart :: "collaborators \<Rightarrow> gocontext \<Rightarrow> request \<Rightarrow> gocontext go" where
  "callServerStart E c r = bind (emit (CallServerStart c r)) (\<lambda>u. outcome (serverStart E c r))"

definition callServerEnd :: "collaborators \<Rightarrow> gocontext \<Rightarrow> serverInvocation \<Rightarrow> unit go" where
  "callServerEnd E c i = bind (emit (CallServerEnd c i)) (\<lambda>u. completion (serverEnd E c i))"

text \<open>\<open>context.WithValue\<close> and \<open>(*Request).WithContext\<close> panic on a nil context.\<close>

definition context_WithValue :: "gocontext \<Rightarrow> ctxkey \<Rightarrow> ctxval \<Rightarrow> gocontext go" where
  "context_WithValue parent key val =
     (if parent = NilContext then throw ''cannot create context from nil parent''
      else ret (WithValue parent key val))"

definition WithContext :: "request \<Rightarrow> gocontext \<Rightarrow> request go" where
  "WithContext r ctx =
     (if ctx = NilContext then throw ''nil context'' else ret (Request (RequestData r) ctx))"

text \<open>Allocation of a wrapper and reading through a pointer to one.\<close>

definition alloc :: "responseWriter \<Rightarrow> nat go" where
  "alloc rw = (\<lambda>w. (w\<lparr>heap := heap w @ [rw]\<rparr>, Inr (length (heap w))))"

definition deref :: "nat option \<Rightarrow> responseWriter go" where
  "deref p =
     (case p of
        None \<Rightarrow> throw ''nil pointer dereference''
      | Some a \<Rightarrow> (\<lambda>w. if a < length (heap w) then (w, Inr (heap w ! a))
                       else (w, Inl ''invalid pointer'')))"

subsection \<open>The hooks\<close>

definition parentContext :: "request \<Rightarrow> gocontext" where
  "parentContext req = (let parentCtx = Context req in
                        if parentCtx = NilContext then Background else parentCtx)"

definition BeforeClientDo_body :: "collaborators \<Rightarrow> HookContext \<Rightarrow> dyn \<Rightarrow> unit go" where
  "BeforeClientDo_body E ictx client =
     bind (callGetParam ictx 1) (\<lambda>v.
       case assert_Request v of
         (None, ok) \<Rightarrow> ret ()
       | (Some req, ok) \<Rightarrow>
           if \<not> ok then ret ()
           else
             let parentCtx = parentContext req;
                 clientReq = req;
                 startTime = Now E
             in bind (callClientStart E parentCtx clientReq) (\<lambda>ctx.
                  let instrCtx = ClientInstrumentationContext startTime clientReq ctx
                  in bind (context_WithValue ctx clientContextKey (ClientInstrPtr (Some instrCtx)))
                       (\<lambda>ctx'. bind (WithContext req ctx')
                          (\<lambda>newReq. callSetParam ictx 1 (RequestPtr (Some newReq))))))"

definition BeforeClientDo :: "collaborators \<Rightarrow> HookContext \<Rightarrow> dyn \<Rightarrow> unit go" where
  "BeforeClientDo E ictx client =
     recovering E ''instrumentation panic in BeforeClientDo'' (BeforeClientDo_body E ictx client)"

text \<open>The two guarded reads of the return values: \<open>resp\<close> and \<open>err\<close> stay nil otherwise.\<close>

definition read_resp :: "HookContext \<Rightarrow> response option go" where
  "read_resp ictx =
     bind (callGetReturnValCount ictx) (\<lambda>n.
       if n \<ge> 1
       then bind (callGetReturnVal ictx 0) (\<lambda>x.
              case assert_Response x of (r, ok) \<Rightarrow> ret (if ok then r else None))
       else ret None)"

definition read_err :: "HookContext \<Rightarrow> string option go" where
  "read_err ictx =
     bind (callGetReturnValCount ictx) (\<lambda>n.
       if n \<ge> 2
       then bind (callGetReturnVal ictx 1) (\<lambda>x.
              case assert_error x of (e, ok) \<Rightarrow> ret (if ok then e else None))
       else ret None)"

definition AfterClientDo_body :: "collaborators \<Rightarrow> HookContext \<Rightarrow> dyn \<Rightarrow> unit go" where
  "AfterClientDo_body E ictx client =
     bind (callGetParam ictx 1) (\<lambda>v.
       case assert_Request v of
         (None, ok) \<Rightarrow> ret ()
       | (Some req, ok) \<Rightarrow>
           if \<not> ok then ret ()
           else
             bind (read_resp ictx) (\<lambda>resp.
             bind (read_err ictx) (\<lambda>err.
               let ctx = Context req
               in if ctx = NilContext then ret ()
                  else
                    let instrCtxVal = Value ctx clientContextKey
                    in if instrCtxVal = NilValue then ret ()
                       else
                         case assert_clientInstr instrCtxVal of
                           (p, False) \<Rightarrow> ret ()
                         | (None, True) \<Rightarrow> throw ''nil pointer dereference''
                         | (Some instrCtx, True) \<Rightarrow>
                             let clientResp = \<lparr>CR_Response = resp, CR_Err = err\<rparr>;
                                 invocation = \<lparr>CI_Request = c_request instrCtx,
                                               CI_Response = clientResp,
                                               CI_Err = err,
                                               CI_StartTimeStamp = c_startTime instrCtx,
                                               CI_EndTimeStamp = Now E\<rparr>
                             in callClientEnd E (c_ctx instrCtx) invocation)))"

definition AfterClientDo :: "collaborators \<Rightarrow> HookContext \<Rightarrow> dyn \<Rightarrow> unit go" where
  "AfterClientDo E ictx client =
     recovering E ''instrumentation panic in AfterClientDo'' (AfterClientDo_body E ictx client)"

definition BeforeServeHTTP_body :: "collaborators \<Rightarrow> HookContext \<Rightarrow> dyn \<Rightarrow> unit go" where
  "BeforeServeHTTP_body E ictx sh =
     bind (callGetParam ictx 1) (\<lambda>v1.
       case assert_ResponseWriter v1 of
         (None, ok) \<Rightarrow> ret ()
       | (Some w, ok) \<Rightarrow>
           if \<not> ok then ret ()
           else
             bind (callGetParam ictx 2) (\<lambda>v2.
               case assert_Request v2 of
                 (None, ok2) \<Rightarrow> ret ()
               | (Some r, ok2) \<Rightarrow>
                   if \<not> ok2 then ret ()
                   else
                     bind (alloc (newResponseWriter w)) (\<lambda>wrappedWriter.
                       let serverReq = r;
                           parentCtx = parentContext r;
                           startTime = Now E
                       in bind (callServerStart E parentCtx serverReq) (\<lambda>ctx.
                            let instrCtx = ServerInstrumentationContext startTime serverReq
                                             (Some wrappedWriter)
                            in bind (context_WithValue ctx serverContextKey
                                       (ServerInstrPtr (Some instrCtx)))
                                 (\<lambda>ctx'. bind (WithContext r ctx')
                                    (\<lambda>newReq.
                                       bind (callSetParam ictx 2 (RequestPtr (Some newReq)))
                                         (\<lambda>u. callSetParam ictx 1
                                                 (WriterVal (WrapperPtr (Some wrappedWriter))))))))))"

definition BeforeServeHTTP :: "collaborators \<Rightarrow> HookContext \<Rightarrow> dyn \<Rightarrow> unit go" where
  "BeforeServeHTTP E ictx sh =
     recovering E ''instrumentation panic in BeforeServeHTTP'' (BeforeServeHTTP_body E ictx sh)"

definition endServerInstrumentation ::
  "collaborators \<Rightarrow> gocontext \<Rightarrow> serverInstrumentationContext option \<Rightarrow> unit go" where
  "endServerInstrumentation E ctx instrCtx =
     (case instrCtx of
        None \<Rightarrow> ret ()
      | Some ic \<Rightarrow>
          bind (deref (s_writer ic)) (\<lambda>rw.
            let serverResp = \<lparr>SR_StatusCode = StatusCode rw, SR_BytesWritten = BytesWritten rw\<rparr>;
                invocation = \<lparr>SI_Request = s_request ic,
                              SI_Response = serverResp,
                              SI_StartTimeStamp = s_startTime ic,
                              SI_EndTimeStamp = Now E\<rparr>
            in callServerEnd E ctx invocation))"

definition AfterServeHTTP_body :: "collaborators \<Rightarrow> HookContext \<Rightarrow> dyn \<Rightarrow> unit go" where
  "AfterServeHTTP_body E ictx sh =
     bind (callGetParam ictx 2) (\<lambda>v.
       case assert_Request v of
         (None, ok) \<Rightarrow> ret ()
       | (Some r, ok) \<Rightarrow>
           if \<not> ok then ret ()
           else
             let ctx = Context r
             in if ctx = NilContext then ret ()
                else
                  let instrCtxVal = Value ctx serverContextKey
                  in if instrCtxVal = NilValue then ret ()
                     else
                       case assert_serverInstr instrCtxVal of
                         (instrCtx, ok3) \<Rightarrow>
                           if \<not> ok3 then ret () else endServerInstrumentation E ctx instrCtx)"

definition AfterServeHTTP :: "collaborators \<Rightarrow> HookContext \<Rightarrow> dyn \<Rightarrow> unit go" where
  "AfterServeHTTP E ictx sh =
     recovering E ''instrumentation panic in AfterServeHTTP'' (AfterServeHTTP_body E ictx sh)"

text \<open>What a run of a hook adds to the trace, and the observations made on it.\<close>

definition new_events :: "unit go \<Rightarrow> world \<Rightarrow> event list" where
  "new_events m w = drop (length (trace w)) (trace (fst (m w)))"

definition returns_normally :: "unit go \<Rightarrow> world \<Rightarrow> bool" where
  "returns_normally m w = (snd (m w) = Inr ())"

fun is_SetParam :: "event \<Rightarrow> bool" where
  "is_SetParam (CallSetParam i v) = True"
| "is_SetParam e = False"

fun is_ClientEnd :: "event \<Rightarrow> bool" where
  "is_ClientEnd (CallClientEnd c i) = True"
| "is_ClientEnd e = False"

fun is_LoggerError :: "event \<Rightarrow> bool" where
  "is_LoggerError (CallLoggerError m p) = True"
| "is_LoggerError e = False"

definition logger_returns :: "collaborators \<Rightarrow> bool" where
  "logger_returns E = (\<forall>msg rec. loggerError E msg rec = None)"

text \<open>
  Observations on a hook body as a whole: \<open>emits_only P m\<close> says that every call \<open>m\<close> adds
  to the trace satisfies \<open>P\<close>, from any state. A read is a call that only asks the
  HookContext for a value. \<open>storedClientContext\<close> is the condition under which
  \<open>AfterClientDo\<close> reaches the end of its body: parameter 1 is a non-nil request whose
  context holds a non-nil \<open>*clientInstrumentationContext\<close> under \<open>clientContextKey\<close>.
\<close>

fun is_read :: "event \<Rightarrow> bool" where
  "is_read (CallGetParam i) = True"
| "is_read CallGetReturnValCount = True"
| "is_read (CallGetReturnVal i) = True"
| "is_read e = False"

definition emits_only :: "(event \<Rightarrow> bool) \<Rightarrow> 'a go \<Rightarrow> bool" where
  "emits_only P m = (\<forall>w. \<exists>evs. trace (fst (m w)) = trace w @ evs \<and> list_all P evs)"

definition storedClientContext :: "HookContext \<Rightarrow> bool" where
  "storedClientContext ictx =
     (\<exists>r ic. GetParam ictx 1 = Inr (RequestPtr (Some r))
            \<and> Value (Context r) clientContextKey = ClientInstrPtr (Some ic))"

definition after_event_ok :: "HookContext \<Rightarrow> event \<Rightarrow> bool" where
  "after_event_ok ictx e =
     ((is_read e \<or> is_LoggerError e \<or> is_ClientEnd e)
      \<and> (is_ClientEnd e \<longrightarrow> storedClientContext ictx)
      \<and> (\<forall>i. e = CallGetReturnVal i \<longrightarrow> (\<exists>n. GetReturnValCount ictx = Inr n \<and> 0 \<le> i \<and> i < n)))"

section \<open>Example inputs\<close>

text \<open>The rule, target and trampolines of the unit tests, and two hook signatures.\<close>

definition plainTrait :: "nat \<Rightarrow> ParamTrait" where
  "plainTrait i = \<lparr>IsVariadic = False, Index = i\<rparr>"

definition variadicTrait :: "nat \<Rightarrow> ParamTrait" where
  "variadicTrait i = \<lparr>IsVariadic = True, Index = i\<rparr>"

definition testRule :: InstFuncRule where
  "testRule = \<lparr>RuleName = ''test_hook'', Target = ''main'', Func = ''TestFunc'',
               Before = ''TestBefore'', After = ''TestAfter''\<rparr>"

definition testTarget :: TargetFunction where
  "testTarget = \<lparr>QualifiedName = ''TestFunc'', Receiver = None,
                 TargetParams = [\<lparr>FieldName = ''p1'', FieldType = ''string''\<rparr>,
                                 \<lparr>FieldName = ''p2'', FieldType = ''int''\<rparr>],
                 TargetResults = [\<lparr>FieldName = ''r1'', FieldType = ''float32''\<rparr>,
                                  \<lparr>FieldName = ''r2'', FieldType = ''error''\<rparr>]\<rparr>"

definition testPhase :: InstrumentPhase where
  "testPhase =
     \<lparr>targetFunc = testTarget,
      beforeHookFunc = \<lparr>Name = ''OtelBeforeTrampoline_test'',
                        Params = [\<lparr>FieldName = ''p1'', FieldType = ''string''\<rparr>,
                                  \<lparr>FieldName = ''items'', FieldType = ''...string''\<rparr>],
                        Results = [], Body = [ReturnStmt]\<rparr>,
      afterHookFunc = \<lparr>Name = ''OtelAfterTrampoline_test'',
                       Params = [\<lparr>FieldName = ''ctx'', FieldType = ''HookContext''\<rparr>,
                                 \<lparr>FieldName = ''p1'', FieldType = ''string''\<rparr>,
                                 \<lparr>FieldName = ''results'', FieldType = ''...interface{}''\<rparr>],
                       Results = [], Body = [ReturnStmt]\<rparr>\<rparr>"

definition testTraits :: "ParamTrait list" where
  "testTraits = [plainTrait 0, plainTrait 1]"

definition testPhaseBefore :: InstrumentPhase where
  "testPhaseBefore = testPhase\<lparr>beforeHookFunc := (beforeHookFunc testPhase)
      \<lparr>Body := [DeferRecover,
                IfStmt (HooksEnabled ''test_hook'')
                  [ExprStmt (CallExpr ''TestBefore'' [NewHookContext, Ident ''p1''])],
                ReturnStmt]\<rparr>\<rparr>"

definition testPhaseAfter :: InstrumentPhase where
  "testPhaseAfter = testPhase\<lparr>afterHookFunc := (afterHookFunc testPhase)
      \<lparr>Body := [DeferRecover,
                IfStmt (HooksEnabled ''test_hook'')
                  [ExprStmt (CallExpr ''TestAfter'' [Ident ''ctx'', Ident ''p1''])],
                ReturnStmt]\<rparr>\<rparr>"

definition overTraits :: "ParamTrait list" where
  "overTraits = [plainTrait 0, plainTrait 1, plainTrait 2, plainTrait 3]"

definition variadicTraits :: "ParamTrait list" where
  "variadicTraits = [plainTrait 0, plainTrait 1, variadicTrait 2]"



definition variadicPhaseBefore :: InstrumentPhase where
  "variadicPhaseBefore = testPhase\<lparr>beforeHookFunc := (beforeHookFunc testPhase)
      \<lparr>Body := [DeferRecover,
                IfStmt (HooksEnabled ''test_hook'')
                  [ExprStmt (CallExpr ''TestBefore''
                     [NewHookContext, Ident ''p1'', VariadicExpand (Ident ''items'')])],
                ReturnStmt]\<rparr>\<rparr>"

definition variadicPhaseAfter :: InstrumentPhase where
  "variadicPhaseAfter = testPhase\<lparr>afterHookFunc := (afterHookFunc testPhase)
      \<lparr>Body := [DeferRecover,
                IfStmt (HooksEnabled ''test_hook'')
                  [ExprStmt (CallExpr ''TestAfter''
                     [Ident ''ctx'', Ident ''p1'', VariadicExpand (Ident ''results'')])],
                ReturnStmt]\<rparr>\<rparr>"

definition sampleCalls :: "rw_call list" where
  "sampleCalls = [WriteCall [104, 105] 2 None, WriteHeaderCall 404, WriteCall [33] 1 None]"

text \<open>
  Inputs for the client hooks: a request with no context of its own, collaborators that
  return (the instrumenter's \<open>Start\<close> derives a context from the parent), the same with a
  \<open>Start\<close> that panics, the same again with a logger that panics as well, a HookContext
  that holds the request as parameter 1 and two return values, and the request as
  \<open>BeforeClientDo\<close> leaves it with the first collaborators.
\<close>

definition sampleRequest :: request where
  "sampleRequest = Request ''GET /items'' Background"

definition spanContext :: "gocontext \<Rightarrow> gocontext" where
  "spanContext parent = WithValue parent (OtherKey ''span'') (OtherValue ''client span'')"

definition quietCollaborators :: collaborators where
  "quietCollaborators =
     \<lparr>Now = 7,
      clientStart = (\<lambda>c r. Inr (spanContext c)),
      clientEnd = (\<lambda>c i. None),
      serverStart = (\<lambda>c r. Inr (spanContext c)),
      serverEnd = (\<lambda>c i. None),
      loggerError = (\<lambda>m p. None)\<rparr>"

definition failingCollaborators :: collaborators where
  "failingCollaborators =
     quietCollaborators\<lparr>clientStart := (\<lambda>c r. Inl ''nil pointer dereference'')\<rparr>"

definition brokenLoggerCollaborators :: collaborators where
  "brokenLoggerCollaborators =
     failingCollaborators\<lparr>loggerError := (\<lambda>m p. Some ''logger down'')\<rparr>"

definition clientHookContext :: HookContext where
  "clientHookContext =
     \<lparr>GetParam = (\<lambda>i. if i = 1 then Inr (RequestPtr (Some sampleRequest)) else Inr NilAny),
      SetParam = (\<lambda>i v. None),
      GetReturnValCount = Inr 2,
      GetReturnVal = (\<lambda>i. if i = 0 then Inr (ResponsePtr (Some (Response 200))) else Inr NilAny)\<rparr>"

definition emptyWorld :: world where
  "emptyWorld = \<lparr>trace = [], heap = []\<rparr>"

definition instrumentedRequest :: request where
  "instrumentedRequest =
     Request ''GET /items''
       (WithValue (spanContext Background) clientContextKey
          (ClientInstrPtr (Some (ClientInstrumentationContext 7 sampleRequest
                                   (spanContext Background)))))"

definition afterHookContext :: HookContext where
  "afterHookContext =
     clientHookContext\<lparr>GetParam :=
       (\<lambda>i. if i = 1 then Inr (RequestPtr (Some instrumentedRequest)) else Inr NilAny)\<rparr>"

section \<open>Properties of the hook dispatcher generator\<close>

lemma length_hook_args: "length (hook_args k A H) = length H"
  by (simp add: hook_args_def)

lemma nth_hook_args: "i < length H \<Longrightarrow> hook_args k A H ! i = hook_arg k A H i"
  by (simp add: hook_args_def)

lemma insert_before_return_Inr:
  "insert_before_return s ss = Inr ss' \<longleftrightarrow>
     (ss \<noteq> [] \<and> last ss = ReturnStmt \<and> ss' = with_recovery (butlast ss) @ [s, ReturnStmt])"
  by (auto simp: insert_before_return_def)

lemma emit_dispatch_Inr:
  "emit_dispatch k fd rn hn H = Inr fd' \<longleftrightarrow>
     (\<not> arity_exceeded k (Params fd) H \<and> Body fd \<noteq> [] \<and> last (Body fd) = ReturnStmt \<and>
      fd' = fd\<lparr>Body := with_recovery (butlast (Body fd))
                          @ [guarded_call rn hn (hook_args k (Params fd) H), ReturnStmt]\<rparr>)"
  by (auto simp: emit_dispatch_def insert_before_return_def split: sum.splits)

lemma emit_dispatch_arity:
  "(\<exists>d a. emit_dispatch k fd rn hn H = Inl (HookArityError d a)) \<longleftrightarrow> arity_exceeded k (Params fd) H"
  by (auto simp: emit_dispatch_def insert_before_return_def split: sum.splits)

lemma emit_dispatch_arity_counts:
  "emit_dispatch k fd rn hn H = Inl (HookArityError d a) \<Longrightarrow>
     d = length H \<and> a = available k (Params fd)"
  by (auto simp: emit_dispatch_def insert_before_return_def split: sum.splits if_splits)

lemma dispatch_stmt_appended:
  "dispatch_stmt (fd\<lparr>Body := pre @ [s, ReturnStmt]\<rparr>) = Some s"
  by (simp add: dispatch_stmt_def nth_append)

lemma call_args_guarded: "call_args (Some (guarded_call rn hn args)) = Some args"
  by (simp add: guarded_call_def)

lemma plain_hook_arg:
  "0 < i \<Longrightarrow> plain (hook_arg k A H i) = Ident (FieldName (A ! formal_index k i))"
  by (simp add: hook_arg_def Let_def)

lemma map_plain_hook_args:
  "\<not> arity_exceeded k A H \<Longrightarrow>
     map plain (hook_args k A H) = take (length H) (match_sequence k A)"
  apply (rule nth_equalityI)
   apply (cases k; auto simp: length_hook_args match_sequence_def formal_exprs_def arity_exceeded_def)
  apply (cases k; auto simp: length_hook_args nth_hook_args match_sequence_def formal_exprs_def
      arity_exceeded_def hook_arg_def Let_def formal_index_def nth_Cons split: nat.splits)
  done

lemma callBeforeHook_Inr:
  "callBeforeHook ip t H = Inr ip' \<longleftrightarrow>
     (\<exists>fd'. emit_dispatch BeforeKind (beforeHookFunc ip) (RuleName t) (Before t) H = Inr fd' \<and>
            ip' = ip\<lparr>beforeHookFunc := fd'\<rparr>)"
  by (auto simp: callBeforeHook_def split: sum.splits)

lemma callAfterHook_Inr:
  "callAfterHook ip t H = Inr ip' \<longleftrightarrow>
     (\<exists>fd'. emit_dispatch AfterKind (afterHookFunc ip) (RuleName t) (After t) H = Inr fd' \<and>
            ip' = ip\<lparr>afterHookFunc := fd'\<rparr>)"
  by (auto simp: callAfterHook_def split: sum.splits)

lemma callBeforeHook_Inl:
  "callBeforeHook ip t H = Inl e \<longleftrightarrow>
     emit_dispatch BeforeKind (beforeHookFunc ip) (RuleName t) (Before t) H = Inl e"
  by (auto simp: callBeforeHook_def split: sum.splits)

lemma callAfterHook_Inl:
  "callAfterHook ip t H = Inl e \<longleftrightarrow>
     emit_dispatch AfterKind (afterHookFunc ip) (RuleName t) (After t) H = Inl e"
  by (auto simp: callAfterHook_def split: sum.splits)

lemma emit_dispatch_call_args:
  assumes "emit_dispatch k fd rn hn H = Inr fd'"
  shows "call_args (dispatch_stmt fd') = Some (hook_args k (Params fd) H)"
    and "\<not> arity_exceeded k (Params fd) H"
  using assms by (auto simp: emit_dispatch_Inr dispatch_stmt_appended call_args_guarded)

lemma hook_arg_pos:
  "0 < i \<Longrightarrow> hook_arg k A H i =
     (if IsVariadic (H ! i) then VariadicExpand (Ident (FieldName (A ! formal_index k i)))
      else Ident (FieldName (A ! formal_index k i)))"
  by (simp add: hook_arg_def Let_def)

lemma hook_args_prefix:
  assumes "\<not> arity_exceeded k A H"
  shows "length (hook_args k A H) = length H
       \<and> length H \<le> available k A
       \<and> map plain (hook_args k A H) = take (length H) (match_sequence k A)
       \<and> (H \<noteq> [] \<longrightarrow> hook_args k A H ! 0 =
             (case k of BeforeKind \<Rightarrow> NewHookContext | AfterKind \<Rightarrow> Ident (FieldName (A ! 0))))
       \<and> (\<forall>i. 1 \<le> i \<and> i < length H \<longrightarrow>
            hook_args k A H ! i =
              (if IsVariadic (H ! i) then VariadicExpand (Ident (FieldName (A ! formal_index k i)))
               else Ident (FieldName (A ! formal_index k i))))"
proof (intro conjI impI allI)
  show "length (hook_args k A H) = length H" by (rule length_hook_args)
  from assms show "length H \<le> available k A"
    by (cases k) (auto simp: arity_exceeded_def available_def)
  from assms show "map plain (hook_args k A H) = take (length H) (match_sequence k A)"
    by (rule map_plain_hook_args)
next
  assume "H \<noteq> []"
  then show "hook_args k A H ! 0 =
      (case k of BeforeKind \<Rightarrow> NewHookContext | AfterKind \<Rightarrow> Ident (FieldName (A ! 0)))"
    by (simp add: nth_hook_args hook_arg_def)
next
  fix i assume "1 \<le> i \<and> i < length H"
  then show "hook_args k A H ! i =
      (if IsVariadic (H ! i) then VariadicExpand (Ident (FieldName (A ! formal_index k i)))
       else Ident (FieldName (A ! formal_index k i)))"
    by (simp add: nth_hook_args hook_arg_pos)
qed

text \<open>
  Claim C1. When dispatch generation succeeds for a hook with traits \<open>H\<close> (so \<open>H\<close> has
  passed the arity check), the generated call passes exactly \<open>|H|\<close> arguments, at most as
  many as are available, and they are the first \<open>|H|\<close> positions of the sequence
  (HookContext, trampoline formals). The first argument is a HookContext: constructed
  in-line for the Before trampoline, the trampoline's own first formal for the After
  trampoline. For \<open>i \<ge> 1\<close> the \<open>i\<close>-th argument is formal \<open>A[i-1]\<close> of the Before trampoline
  and formal \<open>A[i]\<close> of the After trampoline, under the variadic marker exactly when trait
  \<open>i\<close> is variadic. A hook with fewer formals than available gets a prefix call. On an After
  trampoline that the trampoline builder has made, the first formal, and so the first
  argument, is the HookContext parameter.
\<close>

theorem dispatch_call_is_prefix:
  "(callBeforeHook ip t H = Inr ipb \<longrightarrow>
      (\<exists>args. call_args (dispatch_stmt (beforeHookFunc ipb)) = Some args
         \<and> length args = length H
         \<and> length H \<le> length (Params (beforeHookFunc ip)) + 1
         \<and> map plain args = take (length H) (match_sequence BeforeKind (Params (beforeHookFunc ip)))
         \<and> (H \<noteq> [] \<longrightarrow> args ! 0 = NewHookContext)
         \<and> (\<forall>i. 1 \<le> i \<and> i < length H \<longrightarrow>
              args ! i =
                (if IsVariadic (H ! i)
                 then VariadicExpand (Ident (FieldName (Params (beforeHookFunc ip) ! (i - 1))))
                 else Ident (FieldName (Params (beforeHookFunc ip) ! (i - 1)))))))
   \<and> (callAfterHook ip t H = Inr ipa \<longrightarrow>
      (\<exists>args. call_args (dispatch_stmt (afterHookFunc ipa)) = Some args
         \<and> length args = length H
         \<and> length H \<le> length (Params (afterHookFunc ip))
         \<and> map plain args = take (length H) (match_sequence AfterKind (Params (afterHookFunc ip)))
         \<and> (H \<noteq> [] \<longrightarrow> args ! 0 = Ident (FieldName (Params (afterHookFunc ip) ! 0)))
         \<and> (\<forall>i. 1 \<le> i \<and> i < length H \<longrightarrow>
              args ! i =
                (if IsVariadic (H ! i)
                 then VariadicExpand (Ident (FieldName (Params (afterHookFunc ip) ! i)))
                 else Ident (FieldName (Params (afterHookFunc ip) ! i))))))
   \<and> (callAfterHook (buildTrampolineTypes ip0) t H = Inr ipa' \<and> H \<noteq> [] \<longrightarrow>
      (\<exists>args. call_args (dispatch_stmt (afterHookFunc ipa')) = Some args
         \<and> args ! 0 = Ident (FieldName hookContextField)
         \<and> FieldType hookContextField = HookContextType))"
proof (intro conjI impI)
  assume a': "callAfterHook (buildTrampolineTypes ip0) t H = Inr ipa' \<and> H \<noteq> []"
  then obtain fd' where e: "emit_dispatch AfterKind (afterHookFunc (buildTrampolineTypes ip0))
        (RuleName t) (After t) H = Inr fd'"
    and ipa: "ipa' = (buildTrampolineTypes ip0)\<lparr>afterHookFunc := fd'\<rparr>"
    by (auto simp: callAfterHook_Inr)
  have p0: "Params (afterHookFunc (buildTrampolineTypes ip0)) ! 0 = hookContextField"
    by (simp add: buildTrampolineTypes_def Let_def)
  from a' emit_dispatch_call_args[OF e]
    hook_args_prefix[of AfterKind "Params (afterHookFunc (buildTrampolineTypes ip0))" H]
  show "\<exists>args. call_args (dispatch_stmt (afterHookFunc ipa')) = Some args
         \<and> args ! 0 = Ident (FieldName hookContextField)
         \<and> FieldType hookContextField = HookContextType"
    by (simp add: ipa p0 hookContextField_def)
next
  assume "callBeforeHook ip t H = Inr ipb"
  then obtain fd' where e: "emit_dispatch BeforeKind (beforeHookFunc ip) (RuleName t) (Before t) H = Inr fd'"
    and ipb: "ipb = ip\<lparr>beforeHookFunc := fd'\<rparr>"
    by (auto simp: callBeforeHook_Inr)
  from emit_dispatch_call_args[OF e] hook_args_prefix[of BeforeKind "Params (beforeHookFunc ip)" H]
  show "\<exists>args. call_args (dispatch_stmt (beforeHookFunc ipb)) = Some args
         \<and> length args = length H
         \<and> length H \<le> length (Params (beforeHookFunc ip)) + 1
         \<and> map plain args = take (length H) (match_sequence BeforeKind (Params (beforeHookFunc ip)))
         \<and> (H \<noteq> [] \<longrightarrow> args ! 0 = NewHookContext)
         \<and> (\<forall>i. 1 \<le> i \<and> i < length H \<longrightarrow>
              args ! i =
                (if IsVariadic (H ! i)
                 then VariadicExpand (Ident (FieldName (Params (beforeHookFunc ip) ! (i - 1))))
                 else Ident (FieldName (Params (beforeHookFunc ip) ! (i - 1)))))"
    by (simp add: ipb formal_index_def available_def)
next
  assume "callAfterHook ip t H = Inr ipa"
  then obtain fd' where e: "emit_dispatch AfterKind (afterHookFunc ip) (RuleName t) (After t) H = Inr fd'"
    and ipa: "ipa = ip\<lparr>afterHookFunc := fd'\<rparr>"
    by (auto simp: callAfterHook_Inr)
  from emit_dispatch_call_args[OF e] hook_args_prefix[of AfterKind "Params (afterHookFunc ip)" H]
  show "\<exists>args. call_args (dispatch_stmt (afterHookFunc ipa)) = Some args
         \<and> length args = length H
         \<and> length H \<le> length (Params (afterHookFunc ip))
         \<and> map plain args = take (length H) (match_sequence AfterKind (Params (afterHookFunc ip)))
         \<and> (H \<noteq> [] \<longrightarrow> args ! 0 = Ident (FieldName (Params (afterHookFunc ip) ! 0)))
         \<and> (\<forall>i. 1 \<le> i \<and> i < length H \<longrightarrow>
              args ! i =
                (if IsVariadic (H ! i)
                 then VariadicExpand (Ident (FieldName (Params (afterHookFunc ip) ! i)))
                 else Ident (FieldName (Params (afterHookFunc ip) ! i))))"
    by (simp add: ipa formal_index_def available_def)
qed

lemmas dispatch_eval =
  callAfterHook_def callBeforeHook_def emit_dispatch_def arity_exceeded_def testPhase_def
  testRule_def insert_before_return_def with_recovery_def guarded_call_def hook_args_def
  hook_arg_def formal_index_def plainTrait_def variadicTrait_def upt_rec available_def
  dispatch_stmt_def

lemma testPhase_before_run:
  "callBeforeHook testPhase testRule testTraits = Inr testPhaseBefore"
  by (simp add: dispatch_eval testTraits_def testPhaseBefore_def)

lemma testPhase_after_run:
  "callAfterHook testPhase testRule testTraits = Inr testPhaseAfter"
  by (simp add: dispatch_eval testTraits_def testPhaseAfter_def)

text \<open>
  Claim C1 at the two-formal hook of the unit tests, one formal fewer than either trampoline
  offers: the After trampoline's first formal, \<open>ctx\<close>, has type HookContext.
\<close>

theorem dispatch_call_is_prefix_witness:
  "callBeforeHook testPhase testRule testTraits = Inr testPhaseBefore
   \<and> callAfterHook testPhase testRule testTraits = Inr testPhaseAfter
   \<and> length testTraits = 2
   \<and> length (Params (beforeHookFunc testPhase)) + 1 = 3
   \<and> length (Params (afterHookFunc testPhase)) = 3
   \<and> (\<exists>args. call_args (dispatch_stmt (beforeHookFunc testPhaseBefore)) = Some args
         \<and> length args = 2 \<and> args ! 0 = NewHookContext \<and> args ! 1 = Ident ''p1'')
   \<and> (\<exists>args. call_args (dispatch_stmt (afterHookFunc testPhaseAfter)) = Some args
         \<and> length args = 2 \<and> args ! 0 = Ident ''ctx'' \<and> args ! 1 = Ident ''p1'')
   \<and> Params (afterHookFunc testPhase) ! 0 = \<lparr>FieldName = ''ctx'', FieldType = ''HookContext''\<rparr>"
proof -
  note inst = dispatch_call_is_prefix [of testPhase testRule testTraits testPhaseBefore testPhaseAfter]
  have len: "length testTraits = 2" and ne: "testTraits \<noteq> []"
    and v: "\<not> IsVariadic (testTraits ! 1)"
    by (simp_all add: testTraits_def plainTrait_def)
  from inst testPhase_before_run obtain bs where
    b: "call_args (dispatch_stmt (beforeHookFunc testPhaseBefore)) = Some bs"
       "length bs = length testTraits" "testTraits \<noteq> [] \<longrightarrow> bs ! 0 = NewHookContext"
       "\<forall>i. 1 \<le> i \<and> i < length testTraits \<longrightarrow>
          bs ! i = (if IsVariadic (testTraits ! i)
                    then VariadicExpand (Ident (FieldName (Params (beforeHookFunc testPhase) ! (i - 1))))
                    else Ident (FieldName (Params (beforeHookFunc testPhase) ! (i - 1))))"
    by blast
  from inst testPhase_after_run obtain as where
    a: "call_args (dispatch_stmt (afterHookFunc testPhaseAfter)) = Some as"
       "length as = length testTraits"
       "testTraits \<noteq> [] \<longrightarrow> as ! 0 = Ident (FieldName (Params (afterHookFunc testPhase) ! 0))"
       "\<forall>i. 1 \<le> i \<and> i < length testTraits \<longrightarrow>
          as ! i = (if IsVariadic (testTraits ! i)
                    then VariadicExpand (Ident (FieldName (Params (afterHookFunc testPhase) ! i)))
                    else Ident (FieldName (Params (afterHookFunc testPhase) ! i)))"
    by blast
  from b(4) len v have b1: "bs ! 1 = Ident ''p1''"
    by (simp add: testPhase_def)
  from a(4) len v have a1: "as ! 1 = Ident ''p1''"
    by (simp add: testPhase_def)
  from a(3) ne have a0: "as ! 0 = Ident ''ctx''"
    by (simp add: testPhase_def)
  have ps: "length (Params (beforeHookFunc testPhase)) + 1 = 3"
    "length (Params (afterHookFunc testPhase)) = 3"
    "Params (afterHookFunc testPhase) ! 0 = \<lparr>FieldName = ''ctx'', FieldType = ''HookContext''\<rparr>"
    by (simp_all add: testPhase_def)
  from b a b1 a1 a0 len ne ps testPhase_before_run testPhase_after_run show ?thesis
    by simp
qed

lemma sublist_show_declared:
  "sublist (show_nat d) (error_message k (HookArityError d a))"
  by (simp only: error_message.simps sublist_appendI)

lemma sublist_show_available:
  "sublist (show_nat a) (error_message k (HookArityError d a))"
proof -
  have "error_message k (HookArityError d a) =
     (''hook declares '' @ show_nat d @ '' params but '' @ available_noun k @ '' only has '')
       @ show_nat a @ '' params available''"
    by (simp only: error_message.simps append_assoc)
  then show ?thesis by (simp only: sublist_appendI)
qed

lemma show_nat_nonempty: "show_nat n \<noteq> []"
  by (subst show_nat.simps) simp

text \<open>
  Claim C2. Dispatch generation fails with an arity error exactly when \<open>|H| - 1 > |A|\<close>
  (Before) or \<open>|H| > |A|\<close> (After); the error then carries the declared count \<open>|H|\<close> and
  the available count (\<open>|A| + 1\<close> for Before, \<open>|A|\<close> for After), and its message
  contains the decimal form of both.
\<close>

theorem arity_error_exactly_when_exceeded:
  "((\<exists>d a. callBeforeHook ip t H = Inl (HookArityError d a))
       \<longleftrightarrow> int (length H) - 1 > int (length (Params (beforeHookFunc ip))))
   \<and> ((\<exists>d a. callAfterHook ip t H = Inl (HookArityError d a))
       \<longleftrightarrow> length H > length (Params (afterHookFunc ip)))
   \<and> (callBeforeHook ip t H = Inl (HookArityError d a) \<longrightarrow>
         d = length H \<and> a = length (Params (beforeHookFunc ip)) + 1
         \<and> sublist (show_nat (length H)) (error_message BeforeKind (HookArityError d a))
         \<and> sublist (show_nat (length (Params (beforeHookFunc ip)) + 1))
              (error_message BeforeKind (HookArityError d a)))
   \<and> (callAfterHook ip t H = Inl (HookArityError d' a') \<longrightarrow>
         d' = length H \<and> a' = length (Params (afterHookFunc ip))
         \<and> sublist (show_nat (length H)) (error_message AfterKind (HookArityError d' a'))
         \<and> sublist (show_nat (length (Params (afterHookFunc ip))))
              (error_message AfterKind (HookArityError d' a')))"
proof (intro conjI impI)
  show "(\<exists>d a. callBeforeHook ip t H = Inl (HookArityError d a))
       \<longleftrightarrow> int (length H) - 1 > int (length (Params (beforeHookFunc ip)))"
    using emit_dispatch_arity [of BeforeKind "beforeHookFunc ip" "RuleName t" "Before t" H]
    by (simp add: callBeforeHook_Inl arity_exceeded_def)
  show "(\<exists>d a. callAfterHook ip t H = Inl (HookArityError d a))
       \<longleftrightarrow> length H > length (Params (afterHookFunc ip))"
    using emit_dispatch_arity [of AfterKind "afterHookFunc ip" "RuleName t" "After t" H]
    by (simp add: callAfterHook_Inl arity_exceeded_def)
next
  assume b: "callBeforeHook ip t H = Inl (HookArityError d a)"
  then have da: "d = length H \<and> a = length (Params (beforeHookFunc ip)) + 1"
    using emit_dispatch_arity_counts [of BeforeKind "beforeHookFunc ip" "RuleName t" "Before t" H d a]
    by (simp add: callBeforeHook_Inl available_def)
  then show "d = length H" and "a = length (Params (beforeHookFunc ip)) + 1" by simp_all
  from da show "sublist (show_nat (length H)) (error_message BeforeKind (HookArityError d a))"
    using sublist_show_declared [of d BeforeKind a] by simp
  from da show "sublist (show_nat (length (Params (beforeHookFunc ip)) + 1))
              (error_message BeforeKind (HookArityError d a))"
    using sublist_show_available [of a BeforeKind d] by simp
next
  assume b: "callAfterHook ip t H = Inl (HookArityError d' a')"
  then have da: "d' = length H \<and> a' = length (Params (afterHookFunc ip))"
    using emit_dispatch_arity_counts [of AfterKind "afterHookFunc ip" "RuleName t" "After t" H d' a']
    by (simp add: callAfterHook_Inl available_def)
  then show "d' = length H" and "a' = length (Params (afterHookFunc ip))" by simp_all
  from da show "sublist (show_nat (length H)) (error_message AfterKind (HookArityError d' a'))"
    using sublist_show_declared [of d' AfterKind a'] by simp
  from da show "sublist (show_nat (length (Params (afterHookFunc ip))))
              (error_message AfterKind (HookArityError d' a'))"
    using sublist_show_available [of a' AfterKind d'] by simp
qed

lemma show_nat_digit: "n < 10 \<Longrightarrow> show_nat n = [digit n]"
  by (subst show_nat.simps) simp

lemma overTraits_before:
  "callBeforeHook testPhase testRule overTraits = Inl (HookArityError 4 3)"
  by (simp add: dispatch_eval overTraits_def)

lemma overTraits_after:
  "callAfterHook testPhase testRule overTraits = Inl (HookArityError 4 3)"
  by (simp add: dispatch_eval overTraits_def)

lemma overTraits_message:
  "error_message BeforeKind (HookArityError 4 3)
     = ''hook declares 4 params but target function only has 3 params available''"
  by (simp add: show_nat_digit digit_def available_noun_def)

text \<open>
  Claim C2 at the four-formal hook: both trampolines of the unit tests offer three positions.
\<close>

theorem arity_error_exactly_when_exceeded_witness:
  "callBeforeHook testPhase testRule overTraits = Inl (HookArityError 4 3)
   \<and> callAfterHook testPhase testRule overTraits = Inl (HookArityError 4 3)
   \<and> int (length overTraits) - 1 > int (length (Params (beforeHookFunc testPhase)))
   \<and> length overTraits > length (Params (afterHookFunc testPhase))
   \<and> sublist (show_nat 4) (error_message BeforeKind (HookArityError 4 3))
   \<and> sublist (show_nat 3) (error_message BeforeKind (HookArityError 4 3))
   \<and> sublist (show_nat 4) (error_message AfterKind (HookArityError 4 3))
   \<and> sublist (show_nat 3) (error_message AfterKind (HookArityError 4 3))
   \<and> error_message BeforeKind (HookArityError 4 3)
        = ''hook declares 4 params but target function only has 3 params available''"
proof -
  note inst = arity_error_exactly_when_exceeded
    [of testPhase testRule overTraits 4 3 4 3]
  have len: "length overTraits = 4"
    and lb: "length (Params (beforeHookFunc testPhase)) = 2"
    and la: "length (Params (afterHookFunc testPhase)) = 3"
    by (simp_all add: overTraits_def testPhase_def)
  from inst overTraits_before overTraits_after len lb la overTraits_message
  show ?thesis by simp
qed

lemma with_recovery_cases: "with_recovery ss = ss \<or> with_recovery ss = DeferRecover # ss"
  by (auto simp: with_recovery_def split: list.splits stmt.splits)

lemma emit_dispatch_body:
  assumes "emit_dispatch k fd rn hn H = Inr fd'" and "Body fd = pre @ [ReturnStmt]"
  shows "\<exists>front. Body fd' = front @ [IfStmt (HooksEnabled rn)
                                      [ExprStmt (CallExpr hn (hook_args k (Params fd) H))],
                                    ReturnStmt]
               \<and> (front = pre \<or> front = DeferRecover # pre)"
  using assms with_recovery_cases [of pre]
  by (auto simp: emit_dispatch_Inr guarded_call_def)

text \<open>
  Claim C3. When dispatch generation succeeds on a trampoline whose body ends in a plain
  return, the new body keeps the statements before that return (after the deferred recovery
  clause, when it is emitted), then holds a conditional statement whose first statement is an
  expression statement calling the hook, and ends in the plain return.
\<close>

theorem guarded_call_before_trailing_return:
  "(callBeforeHook ip t H = Inr ipb \<and> Body (beforeHookFunc ip) = pre @ [ReturnStmt] \<longrightarrow>
      (\<exists>front cond args rest.
          Body (beforeHookFunc ipb)
            = front @ [IfStmt cond (ExprStmt (CallExpr (Before t) args) # rest), ReturnStmt]
          \<and> (front = pre \<or> front = DeferRecover # pre)
          \<and> last (Body (beforeHookFunc ipb)) = ReturnStmt))
   \<and> (callAfterHook ip t H = Inr ipa \<and> Body (afterHookFunc ip) = pre' @ [ReturnStmt] \<longrightarrow>
      (\<exists>front cond args rest.
          Body (afterHookFunc ipa)
            = front @ [IfStmt cond (ExprStmt (CallExpr (After t) args) # rest), ReturnStmt]
          \<and> (front = pre' \<or> front = DeferRecover # pre')
          \<and> last (Body (afterHookFunc ipa)) = ReturnStmt))"
proof (intro conjI impI)
  assume a: "callBeforeHook ip t H = Inr ipb \<and> Body (beforeHookFunc ip) = pre @ [ReturnStmt]"
  then obtain fd' where e: "emit_dispatch BeforeKind (beforeHookFunc ip) (RuleName t) (Before t) H = Inr fd'"
    and ipb: "ipb = ip\<lparr>beforeHookFunc := fd'\<rparr>"
    by (auto simp: callBeforeHook_Inr)
  from emit_dispatch_body [OF e] a obtain front where
    "Body fd' = front @ [IfStmt (HooksEnabled (RuleName t))
        [ExprStmt (CallExpr (Before t) (hook_args BeforeKind (Params (beforeHookFunc ip)) H))],
        ReturnStmt]" "front = pre \<or> front = DeferRecover # pre"
    by blast
  then show "\<exists>front cond args rest.
          Body (beforeHookFunc ipb)
            = front @ [IfStmt cond (ExprStmt (CallExpr (Before t) args) # rest), ReturnStmt]
          \<and> (front = pre \<or> front = DeferRecover # pre)
          \<and> last (Body (beforeHookFunc ipb)) = ReturnStmt"
    by (simp add: ipb)
next
  assume a: "callAfterHook ip t H = Inr ipa \<and> Body (afterHookFunc ip) = pre' @ [ReturnStmt]"
  then obtain fd' where e: "emit_dispatch AfterKind (afterHookFunc ip) (RuleName t) (After t) H = Inr fd'"
    and ipa: "ipa = ip\<lparr>afterHookFunc := fd'\<rparr>"
    by (auto simp: callAfterHook_Inr)
  from emit_dispatch_body [OF e] a obtain front where
    "Body fd' = front @ [IfStmt (HooksEnabled (RuleName t))
        [ExprStmt (CallExpr (After t) (hook_args AfterKind (Params (afterHookFunc ip)) H))],
        ReturnStmt]" "front = pre' \<or> front = DeferRecover # pre'"
    by blast
  then show "\<exists>front cond args rest.
          Body (afterHookFunc ipa)
            = front @ [IfStmt cond (ExprStmt (CallExpr (After t) args) # rest), ReturnStmt]
          \<and> (front = pre' \<or> front = DeferRecover # pre')
          \<and> last (Body (afterHookFunc ipa)) = ReturnStmt"
    by (simp add: ipa)
qed

text \<open>
  Claim C3 at the trampolines of the unit tests, whose body is a single return.
\<close>

theorem guarded_call_before_trailing_return_witness:
  "callBeforeHook testPhase testRule testTraits = Inr testPhaseBefore
   \<and> Body (beforeHookFunc testPhase) = [] @ [ReturnStmt]
   \<and> callAfterHook testPhase testRule testTraits = Inr testPhaseAfter
   \<and> Body (afterHookFunc testPhase) = [] @ [ReturnStmt]
   \<and> (\<exists>front cond args rest.
          Body (beforeHookFunc testPhaseBefore)
            = front @ [IfStmt cond (ExprStmt (CallExpr ''TestBefore'' args) # rest), ReturnStmt])
   \<and> (\<exists>front cond args rest.
          Body (afterHookFunc testPhaseAfter)
            = front @ [IfStmt cond (ExprStmt (CallExpr ''TestAfter'' args) # rest), ReturnStmt])
   \<and> last (Body (beforeHookFunc testPhaseBefore)) = ReturnStmt
   \<and> last (Body (afterHookFunc testPhaseAfter)) = ReturnStmt"
proof -
  note inst = guarded_call_before_trailing_return
    [of testPhase testRule testTraits testPhaseBefore "[]" testPhaseAfter "[]"]
  have bb: "Body (beforeHookFunc testPhase) = [] @ [ReturnStmt]"
    and ba: "Body (afterHookFunc testPhase) = [] @ [ReturnStmt]"
    and tb: "Before testRule = ''TestBefore''" and ta: "After testRule = ''TestAfter''"
    by (simp_all add: testPhase_def testRule_def)
  from inst testPhase_before_run testPhase_after_run bb ba
  have "(\<exists>front cond args rest.
          Body (beforeHookFunc testPhaseBefore)
            = front @ [IfStmt cond (ExprStmt (CallExpr (Before testRule) args) # rest), ReturnStmt]
          \<and> (front = [] \<or> front = DeferRecover # [])
          \<and> last (Body (beforeHookFunc testPhaseBefore)) = ReturnStmt)"
    and "(\<exists>front cond args rest.
          Body (afterHookFunc testPhaseAfter)
            = front @ [IfStmt cond (ExprStmt (CallExpr (After testRule) args) # rest), ReturnStmt]
          \<and> (front = [] \<or> front = DeferRecover # [])
          \<and> last (Body (afterHookFunc testPhaseAfter)) = ReturnStmt)"
    by blast+
  with testPhase_before_run testPhase_after_run bb ba tb ta show ?thesis
    by auto
qed




lemma hook_arg_variadic:
  "0 < i \<Longrightarrow> IsVariadic (H ! i) \<Longrightarrow>
     hook_arg k A H i = VariadicExpand (Ident (FieldName (A ! formal_index k i)))"
  by (simp add: hook_arg_def Let_def)

text \<open>
  Claim C5. Where the trait at position \<open>i \<ge> 1\<close> is variadic (position 0 is the
  HookContext, never variadic), the argument at position \<open>i\<close> is the corresponding trampoline
  formal itself under the variadic marker, and the call still passes \<open>|H|\<close> arguments.
\<close>

theorem variadic_formal_is_expanded:
  "(callBeforeHook ip t H = Inr ipb \<and> 1 \<le> i \<and> i < length H \<and> IsVariadic (H ! i) \<longrightarrow>
      (\<exists>args. call_args (dispatch_stmt (beforeHookFunc ipb)) = Some args
         \<and> length args = length H
         \<and> args ! i = VariadicExpand (Ident (FieldName (Params (beforeHookFunc ip) ! (i - 1))))))
   \<and> (callAfterHook ip t H = Inr ipa \<and> 1 \<le> j \<and> j < length H \<and> IsVariadic (H ! j) \<longrightarrow>
      (\<exists>args. call_args (dispatch_stmt (afterHookFunc ipa)) = Some args
         \<and> length args = length H
         \<and> args ! j = VariadicExpand (Ident (FieldName (Params (afterHookFunc ip) ! j)))))"
proof (intro conjI impI)
  assume a: "callBeforeHook ip t H = Inr ipb \<and> 1 \<le> i \<and> i < length H \<and> IsVariadic (H ! i)"
  then obtain fd' where e: "emit_dispatch BeforeKind (beforeHookFunc ip) (RuleName t) (Before t) H = Inr fd'"
    and ipb: "ipb = ip\<lparr>beforeHookFunc := fd'\<rparr>"
    by (auto simp: callBeforeHook_Inr)
  from a have "hook_args BeforeKind (Params (beforeHookFunc ip)) H ! i
      = VariadicExpand (Ident (FieldName (Params (beforeHookFunc ip) ! (i - 1))))"
    by (simp add: nth_hook_args hook_arg_variadic formal_index_def)
  with emit_dispatch_call_args(1) [OF e]
  show "\<exists>args. call_args (dispatch_stmt (beforeHookFunc ipb)) = Some args
         \<and> length args = length H
         \<and> args ! i = VariadicExpand (Ident (FieldName (Params (beforeHookFunc ip) ! (i - 1))))"
    by (simp add: ipb length_hook_args)
next
  assume a: "callAfterHook ip t H = Inr ipa \<and> 1 \<le> j \<and> j < length H \<and> IsVariadic (H ! j)"
  then obtain fd' where e: "emit_dispatch AfterKind (afterHookFunc ip) (RuleName t) (After t) H = Inr fd'"
    and ipa: "ipa = ip\<lparr>afterHookFunc := fd'\<rparr>"
    by (auto simp: callAfterHook_Inr)
  from a have "hook_args AfterKind (Params (afterHookFunc ip)) H ! j
      = VariadicExpand (Ident (FieldName (Params (afterHookFunc ip) ! j)))"
    by (simp add: nth_hook_args hook_arg_variadic formal_index_def)
  with emit_dispatch_call_args(1) [OF e]
  show "\<exists>args. call_args (dispatch_stmt (afterHookFunc ipa)) = Some args
         \<and> length args = length H
         \<and> args ! j = VariadicExpand (Ident (FieldName (Params (afterHookFunc ip) ! j)))"
    by (simp add: ipa length_hook_args)
qed

lemma variadic_before_run:
  "callBeforeHook testPhase testRule variadicTraits = Inr variadicPhaseBefore"
  by (simp add: dispatch_eval variadicTraits_def variadicPhaseBefore_def)

lemma variadic_after_run:
  "callAfterHook testPhase testRule variadicTraits = Inr variadicPhaseAfter"
  by (simp add: dispatch_eval variadicTraits_def variadicPhaseAfter_def)

text \<open>
  Claim C5 at a hook whose last formal is variadic.
\<close>

theorem variadic_formal_is_expanded_witness:
  "callBeforeHook testPhase testRule variadicTraits = Inr variadicPhaseBefore
   \<and> callAfterHook testPhase testRule variadicTraits = Inr variadicPhaseAfter
   \<and> (1::nat) \<le> 2 \<and> 2 < length variadicTraits \<and> IsVariadic (variadicTraits ! 2)
   \<and> (\<exists>args. call_args (dispatch_stmt (beforeHookFunc variadicPhaseBefore)) = Some args
         \<and> length args = 3 \<and> args ! 2 = VariadicExpand (Ident ''items''))
   \<and> (\<exists>args. call_args (dispatch_stmt (afterHookFunc variadicPhaseAfter)) = Some args
         \<and> length args = 3 \<and> args ! 2 = VariadicExpand (Ident ''results''))"
proof -
  note inst = variadic_formal_is_expanded
    [of testPhase testRule variadicTraits variadicPhaseBefore 2 variadicPhaseAfter 2]
  have h: "(1::nat) \<le> 2" "2 < length variadicTraits" "IsVariadic (variadicTraits ! 2)"
    "length variadicTraits = 3"
    by (simp_all add: variadicTraits_def variadicTrait_def)
  have f: "FieldName (Params (beforeHookFunc testPhase) ! (2 - 1)) = ''items''"
    "FieldName (Params (afterHookFunc testPhase) ! 2) = ''results''"
    by (simp_all add: testPhase_def)
  from inst variadic_before_run variadic_after_run h
  have "\<exists>args. call_args (dispatch_stmt (beforeHookFunc variadicPhaseBefore)) = Some args
         \<and> length args = length variadicTraits
         \<and> args ! 2 = VariadicExpand (Ident (FieldName (Params (beforeHookFunc testPhase) ! (2 - 1))))"
    and "\<exists>args. call_args (dispatch_stmt (afterHookFunc variadicPhaseAfter)) = Some args
         \<and> length args = length variadicTraits
         \<and> args ! 2 = VariadicExpand (Ident (FieldName (Params (afterHookFunc testPhase) ! 2)))"
    by blast+
  with variadic_before_run variadic_after_run h f show ?thesis
    by simp
qed

section \<open>Properties of the response writer wrapper\<close>

lemma header_codes_append: "header_codes (xs @ ys) = header_codes xs @ header_codes ys"
  by (induction xs rule: header_codes.induct) simp_all

lemma sum_word_of_int:
  "sum_list (map word_of_int ns) = (word_of_int (sum_list ns) :: 64 word)"
  by (induction ns) simp_all

lemma sint_word_of_int_64:
  "- (2 ^ 63) \<le> x \<Longrightarrow> x < 2 ^ 63 \<Longrightarrow> sint (word_of_int x :: 64 word) = x"
  by (simp add: signed_of_int signed_take_bit_int_eq_self)

lemma sum_list_nonneg_int: "\<forall>n \<in> set ns. (0::int) \<le> n \<Longrightarrow> 0 \<le> sum_list ns"
  by (induction ns) simp_all

lemma foldl_apply_call:
  "foldl apply_call (rw, fw) calls = (s, fw') \<Longrightarrow>
     bytesWritten s = bytesWritten rw + sum_list (map word_of_int (write_counts calls))
   \<and> ResponseWriter s = ResponseWriter rw
   \<and> (wroteHeader rw \<longrightarrow>
         header_codes fw' = header_codes fw \<and> statusCode s = statusCode rw \<and> wroteHeader s)
   \<and> (\<not> wroteHeader rw \<longrightarrow>
         header_codes fw' = header_codes fw @ (case first_status calls of None \<Rightarrow> [] | Some c \<Rightarrow> [c])
         \<and> statusCode s = (case first_status calls of None \<Rightarrow> statusCode rw | Some c \<Rightarrow> c))"
proof (induction calls arbitrary: rw fw)
  case Nil
  then show ?case by simp
next
  case (Cons c calls)
  show ?case
  proof (cases c)
    case (WriteHeaderCall code)
    show ?thesis
    proof (cases "wroteHeader rw")
      case True
      with Cons.prems WriteHeaderCall
      have "foldl apply_call (rw, fw) calls = (s, fw')"
        by (simp add: WriteHeader_def)
      from Cons.IH [OF this] True WriteHeaderCall show ?thesis by simp
    next
      case False
      with Cons.prems WriteHeaderCall
      have "foldl apply_call (rw\<lparr>statusCode := code, wroteHeader := True\<rparr>,
               fw @ [FwdWriteHeader code]) calls = (s, fw')"
        by (simp add: WriteHeader_def)
      from Cons.IH [OF this] False WriteHeaderCall show ?thesis
        by (simp add: header_codes_append)
    qed
  next
    case (WriteCall b n err)
    show ?thesis
    proof (cases "wroteHeader rw")
      case True
      with Cons.prems WriteCall
      have "foldl apply_call (rw\<lparr>bytesWritten := bytesWritten rw + word_of_int n\<rparr>,
               fw @ [FwdWrite b]) calls = (s, fw')"
        by (simp add: Write_def)
      from Cons.IH [OF this] True WriteCall show ?thesis
        by (simp add: header_codes_append add.assoc)
    next
      case False
      with Cons.prems WriteCall
      have "foldl apply_call
              (rw\<lparr>statusCode := StatusOK, wroteHeader := True,
                   bytesWritten := bytesWritten rw + word_of_int n\<rparr>,
               fw @ [FwdWriteHeader StatusOK, FwdWrite b]) calls = (s, fw')"
        by (simp add: Write_def WriteHeader_def)
      from Cons.IH [OF this] False WriteCall show ?thesis
        by (simp add: header_codes_append add.assoc)
    qed
  qed
qed

lemma run_calls_invariant:
  assumes "run_calls w calls = (s, fw)"
  shows "header_codes fw = (case first_status calls of None \<Rightarrow> [] | Some c \<Rightarrow> [c])"
    and "StatusCode s = (case first_status calls of None \<Rightarrow> StatusOK | Some c \<Rightarrow> c)"
    and "BytesWritten s = sum_list (map word_of_int (write_counts calls))"
proof -
  from assms have f: "foldl apply_call (newResponseWriter w, []) calls = (s, fw)"
    by (simp add: run_calls_def)
  note inv = foldl_apply_call [OF f]
  have nw: "\<not> wroteHeader (newResponseWriter w)" "statusCode (newResponseWriter w) = StatusOK"
    "bytesWritten (newResponseWriter w) = 0"
    by (simp_all add: newResponseWriter_def)
  from inv nw show "header_codes fw = (case first_status calls of None \<Rightarrow> [] | Some c \<Rightarrow> [c])"
    by simp
  from inv nw show "StatusCode s = (case first_status calls of None \<Rightarrow> StatusOK | Some c \<Rightarrow> c)"
    by (simp add: StatusCode_def split: option.splits)
  from inv nw show "BytesWritten s = sum_list (map word_of_int (write_counts calls))"
    by (simp add: BytesWritten_def)
qed

text \<open>
  Claim C8. After any sequence of \<open>Write\<close> and \<open>WriteHeader\<close> calls on a new wrapper, the
  embedded writer's \<open>WriteHeader\<close> has been called at most once, with the status the first
  call of the sequence sends (its own status, or 200 for a \<open>Write\<close>); \<open>StatusCode\<close> returns
  that status, 200 when nothing was written; and \<open>BytesWritten\<close> is the \<open>int64\<close> sum of the
  counts the embedded \<open>Write\<close> calls returned, which is their exact sum as long as that
  stays below \<open>2^63\<close>.
\<close>

theorem responseWriter_header_once_and_counts:
  "run_calls w calls = (s, fw) \<Longrightarrow>
     length (header_codes fw) \<le> 1
   \<and> header_codes fw = (case first_status calls of None \<Rightarrow> [] | Some c \<Rightarrow> [c])
   \<and> StatusCode s = (case first_status calls of None \<Rightarrow> StatusOK | Some c \<Rightarrow> c)
   \<and> BytesWritten s = sum_list (map word_of_int (write_counts calls))
   \<and> ((\<forall>n \<in> set (write_counts calls). 0 \<le> n) \<and> sum_list (write_counts calls) < 2 ^ 63
         \<longrightarrow> sint (BytesWritten s) = sum_list (write_counts calls))"
proof -
  assume r: "run_calls w calls = (s, fw)"
  note inv = run_calls_invariant [OF r]
  have len: "length (header_codes fw) \<le> 1"
    by (simp add: inv(1) split: option.splits)
  have exact: "(\<forall>n \<in> set (write_counts calls). 0 \<le> n) \<and> sum_list (write_counts calls) < 2 ^ 63
           \<longrightarrow> sint (BytesWritten s) = sum_list (write_counts calls)"
  proof
    assume a: "(\<forall>n \<in> set (write_counts calls). 0 \<le> n) \<and> sum_list (write_counts calls) < 2 ^ 63"
    then have "0 \<le> sum_list (write_counts calls)" by (simp add: sum_list_nonneg_int)
    then have "- (2 ^ 63) \<le> sum_list (write_counts calls)"
      by (rule order_trans [rotated]) simp
    with a show "sint (BytesWritten s) = sum_list (write_counts calls)"
      by (simp add: inv(3) sum_word_of_int sint_word_of_int_64)
  qed
  from len inv exact show ?thesis by blast
qed

lemma sampleCalls_run:
  "run_calls (BaseWriter 0) sampleCalls
     = (\<lparr>ResponseWriter = BaseWriter 0, statusCode = 200, bytesWritten = 3, wroteHeader = True\<rparr>,
        [FwdWriteHeader 200, FwdWrite [104, 105], FwdWrite [33]])"
  by (simp add: run_calls_def sampleCalls_def newResponseWriter_def Write_def WriteHeader_def
      StatusOK_def)

text \<open>
  Claim C8 at a write, a late header and another write.
\<close>

theorem responseWriter_header_once_and_counts_witness:
  "run_calls (BaseWriter 0) sampleCalls
     = (\<lparr>ResponseWriter = BaseWriter 0, statusCode = 200, bytesWritten = 3, wroteHeader = True\<rparr>,
        [FwdWriteHeader 200, FwdWrite [104, 105], FwdWrite [33]])
   \<and> write_counts sampleCalls = [2, 1] \<and> sum_list (write_counts sampleCalls) < 2 ^ 63
   \<and> header_codes [FwdWriteHeader 200, FwdWrite [104, 105], FwdWrite [33]] = [200]
   \<and> StatusCode \<lparr>ResponseWriter = BaseWriter 0, statusCode = 200, bytesWritten = 3,
                  wroteHeader = True\<rparr> = 200
   \<and> sint (BytesWritten \<lparr>ResponseWriter = BaseWriter 0, statusCode = 200, bytesWritten = 3,
                          wroteHeader = True\<rparr>) = 3"
proof -
  note inst = responseWriter_header_once_and_counts [OF sampleCalls_run]
  have h: "(\<forall>n \<in> set (write_counts sampleCalls). 0 \<le> n) \<and> sum_list (write_counts sampleCalls) < 2 ^ 63"
    and fs: "first_status sampleCalls = Some 200"
    and sm: "sum_list (write_counts sampleCalls) = 3"
    and wc: "write_counts sampleCalls = [2, 1]"
    by (simp_all add: sampleCalls_def StatusOK_def)
  from inst fs h sm wc sampleCalls_run show ?thesis
    by (simp add: StatusCode_def BytesWritten_def)
qed

section \<open>Properties of the runtime hooks\<close>

lemmas go_defs =
  bind_def ret_def throw_def emit_def outcome_def completion_def
  callGetParam_def callSetParam_def callGetReturnValCount_def callGetReturnVal_def
  callClientStart_def callClientEnd_def callServerStart_def callServerEnd_def
  context_WithValue_def WithContext_def alloc_def deref_def

lemma recovering_returns:
  "logger_returns E \<Longrightarrow> snd (recovering E msg body w) = Inr ()"
  by (auto simp: recovering_def logger_returns_def go_defs split: prod.splits sum.splits)

lemma recovering_eq:
  "recovering E msg body w =
     (case body w of
        (w', Inr u) \<Rightarrow> (w', Inr ())
      | (w', Inl rec) \<Rightarrow>
          (w'\<lparr>trace := trace w' @ [CallLoggerError msg rec]\<rparr>,
           case loggerError E msg rec of None \<Rightarrow> Inr () | Some p \<Rightarrow> Inl p))"
  by (auto simp: recovering_def go_defs split: prod.splits sum.splits option.splits)

lemma BeforeClientDo_body_eq:
  "BeforeClientDo_body E ictx client w =
     (let w1 = w\<lparr>trace := trace w @ [CallGetParam 1]\<rparr>
      in case GetParam ictx 1 of
           Inl p \<Rightarrow> (w1, Inl p)
         | Inr v \<Rightarrow>
            (case v of
               RequestPtr (Some req) \<Rightarrow>
                 (let w2 = w1\<lparr>trace := trace w1 @ [CallClientStart (parentContext req) req]\<rparr>
                  in case clientStart E (parentContext req) req of
                       Inl p \<Rightarrow> (w2, Inl p)
                     | Inr ctx \<Rightarrow>
                         if ctx = NilContext
                         then (w2, Inl ''cannot create context from nil parent'')
                         else
                           let newReq = Request (RequestData req)
                                 (WithValue ctx clientContextKey
                                    (ClientInstrPtr (Some (ClientInstrumentationContext (Now E) req ctx))));
                               w3 = w2\<lparr>trace := trace w2 @ [CallSetParam 1 (RequestPtr (Some newReq))]\<rparr>
                           in (w3, case SetParam ictx 1 (RequestPtr (Some newReq)) of
                                     None \<Rightarrow> Inr () | Some p \<Rightarrow> Inl p))
             | _ \<Rightarrow> (w1, Inr ())))"
  by (auto simp: BeforeClientDo_body_def go_defs Let_def
      split: sum.splits dyn.splits option.splits prod.splits)

lemma recovering_outcome:
  "snd (recovering E msg body w) =
     (case snd (body w) of
        Inr u \<Rightarrow> Inr ()
      | Inl rec \<Rightarrow> (case loggerError E msg rec of None \<Rightarrow> Inr () | Some p \<Rightarrow> Inl p))"
  by (simp add: recovering_eq split: prod.splits sum.splits)

lemma recovering_normal_iff:
  "returns_normally (recovering E msg body) w \<longleftrightarrow>
     (\<forall>p. snd (body w) = Inl p \<longrightarrow> loggerError E msg p = None)"
  by (auto simp: returns_normally_def recovering_outcome split: sum.splits option.splits)

text \<open>
  Claim C6, as amended. Whenever the logger call made by the deferred handler returns, each
  of the four hooks returns normally, on every HookContext, every second argument and from
  every state: a panic raised in the body (by the HookContext, by the instrumenter, by
  \<open>context.WithValue\<close>, by a nil dereference) is recovered by the deferred handler. In
  general a hook returns normally exactly when its body did not panic or the logger call
  on the recovered panic returns: the only panic that leaves a hook is one raised by the
  logger inside the handler.
\<close>

theorem hooks_return_normally:
  "(logger_returns E \<longrightarrow>
        returns_normally (BeforeClientDo E ictx client) w
      \<and> returns_normally (AfterClientDo E ictx client) w
      \<and> returns_normally (BeforeServeHTTP E ictx sh) w
      \<and> returns_normally (AfterServeHTTP E ictx sh) w)
   \<and> (returns_normally (BeforeClientDo E ictx client) w \<longleftrightarrow>
        (\<forall>p. snd (BeforeClientDo_body E ictx client w) = Inl p \<longrightarrow>
             loggerError E ''instrumentation panic in BeforeClientDo'' p = None))
   \<and> (returns_normally (AfterClientDo E ictx client) w \<longleftrightarrow>
        (\<forall>p. snd (AfterClientDo_body E ictx client w) = Inl p \<longrightarrow>
             loggerError E ''instrumentation panic in AfterClientDo'' p = None))
   \<and> (returns_normally (BeforeServeHTTP E ictx sh) w \<longleftrightarrow>
        (\<forall>p. snd (BeforeServeHTTP_body E ictx sh w) = Inl p \<longrightarrow>
             loggerError E ''instrumentation panic in BeforeServeHTTP'' p = None))
   \<and> (returns_normally (AfterServeHTTP E ictx sh) w \<longleftrightarrow>
        (\<forall>p. snd (AfterServeHTTP_body E ictx sh w) = Inl p \<longrightarrow>
             loggerError E ''instrumentation panic in AfterServeHTTP'' p = None))"
proof (intro conjI impI)
  assume l: "logger_returns E"
  then show "returns_normally (BeforeClientDo E ictx client) w"
    "returns_normally (AfterClientDo E ictx client) w"
    "returns_normally (BeforeServeHTTP E ictx sh) w"
    "returns_normally (AfterServeHTTP E ictx sh) w"
    by (simp_all add: returns_normally_def BeforeClientDo_def AfterClientDo_def
        BeforeServeHTTP_def AfterServeHTTP_def recovering_returns)
next
  show "returns_normally (BeforeClientDo E ictx client) w \<longleftrightarrow>
        (\<forall>p. snd (BeforeClientDo_body E ictx client w) = Inl p \<longrightarrow>
             loggerError E ''instrumentation panic in BeforeClientDo'' p = None)"
    unfolding BeforeClientDo_def by (rule recovering_normal_iff)
  show "returns_normally (AfterClientDo E ictx client) w \<longleftrightarrow>
        (\<forall>p. snd (AfterClientDo_body E ictx client w) = Inl p \<longrightarrow>
             loggerError E ''instrumentation panic in AfterClientDo'' p = None)"
    unfolding AfterClientDo_def by (rule recovering_normal_iff)
  show "returns_normally (BeforeServeHTTP E ictx sh) w \<longleftrightarrow>
        (\<forall>p. snd (BeforeServeHTTP_body E ictx sh w) = Inl p \<longrightarrow>
             loggerError E ''instrumentation panic in BeforeServeHTTP'' p = None)"
    unfolding BeforeServeHTTP_def by (rule recovering_normal_iff)
  show "returns_normally (AfterServeHTTP E ictx sh) w \<longleftrightarrow>
        (\<forall>p. snd (AfterServeHTTP_body E ictx sh w) = Inl p \<longrightarrow>
             loggerError E ''instrumentation panic in AfterServeHTTP'' p = None)"
    unfolding AfterServeHTTP_def by (rule recovering_normal_iff)
qed

lemma failing_body_panics:
  "snd (BeforeClientDo_body failingCollaborators clientHookContext NilAny emptyWorld)
     = Inl ''nil pointer dereference''"
  by (simp add: BeforeClientDo_body_eq failingCollaborators_def quietCollaborators_def
      clientHookContext_def Let_def)

lemma broken_body_panics:
  "snd (BeforeClientDo_body brokenLoggerCollaborators clientHookContext NilAny emptyWorld)
     = Inl ''nil pointer dereference''"
  by (simp add: BeforeClientDo_body_eq brokenLoggerCollaborators_def failingCollaborators_def
      quietCollaborators_def clientHookContext_def Let_def)

text \<open>
  Claim C6 at an instrumenter whose \<open>Start\<close> panics and a logger that returns: the body of
  \<open>BeforeClientDo\<close> panics, the hook returns.
\<close>

theorem hooks_return_normally_witness:
  "logger_returns failingCollaborators
   \<and> snd (BeforeClientDo_body failingCollaborators clientHookContext NilAny emptyWorld)
       = Inl ''nil pointer dereference''
   \<and> returns_normally (BeforeClientDo failingCollaborators clientHookContext NilAny) emptyWorld
   \<and> returns_normally (AfterClientDo failingCollaborators clientHookContext NilAny) emptyWorld
   \<and> returns_normally (BeforeServeHTTP failingCollaborators clientHookContext NilAny) emptyWorld
   \<and> returns_normally (AfterServeHTTP failingCollaborators clientHookContext NilAny) emptyWorld"
proof -
  note inst = hooks_return_normally
    [of failingCollaborators clientHookContext NilAny emptyWorld NilAny]
  have l: "logger_returns failingCollaborators"
    by (simp add: logger_returns_def failingCollaborators_def quietCollaborators_def)
  from inst l have
    "returns_normally (BeforeClientDo failingCollaborators clientHookContext NilAny) emptyWorld
     \<and> returns_normally (AfterClientDo failingCollaborators clientHookContext NilAny) emptyWorld
     \<and> returns_normally (BeforeServeHTTP failingCollaborators clientHookContext NilAny) emptyWorld
     \<and> returns_normally (AfterServeHTTP failingCollaborators clientHookContext NilAny) emptyWorld"
    by blast
  with l failing_body_panics show ?thesis by simp
qed

text \<open>
  Claim C6 as stated has every hook return normally on every input; with an instrumenter whose
  \<open>Start\<close> panics and a logger that panics in turn, the panic of the logger leaves
  \<open>BeforeClientDo\<close>.
\<close>

theorem hooks_logger_panic_counterexample:
  "snd (BeforeClientDo_body brokenLoggerCollaborators clientHookContext NilAny emptyWorld)
       = Inl ''nil pointer dereference''
   \<and> loggerError brokenLoggerCollaborators ''instrumentation panic in BeforeClientDo''
         ''nil pointer dereference'' = Some ''logger down''
   \<and> snd (BeforeClientDo brokenLoggerCollaborators clientHookContext NilAny emptyWorld)
       = Inl ''logger down''
   \<and> \<not> returns_normally (BeforeClientDo brokenLoggerCollaborators clientHookContext NilAny)
         emptyWorld"
proof -
  have lg: "loggerError brokenLoggerCollaborators ''instrumentation panic in BeforeClientDo''
         ''nil pointer dereference'' = Some ''logger down''"
    by (simp add: brokenLoggerCollaborators_def)
  have out: "snd (BeforeClientDo brokenLoggerCollaborators clientHookContext NilAny emptyWorld)
       = Inl ''logger down''"
    unfolding BeforeClientDo_def recovering_outcome broken_body_panics
    by (simp add: lg)
  from lg out broken_body_panics show ?thesis
    by (simp add: returns_normally_def)
qed

lemma BeforeClientDo_events:
  "new_events (BeforeClientDo E ictx client) w =
     (case GetParam ictx 1 of
        Inl p \<Rightarrow> [CallGetParam 1, CallLoggerError ''instrumentation panic in BeforeClientDo'' p]
      | Inr v \<Rightarrow>
         (case v of
            RequestPtr (Some req) \<Rightarrow>
              (case clientStart E (parentContext req) req of
                 Inl p \<Rightarrow> [CallGetParam 1, CallClientStart (parentContext req) req,
                           CallLoggerError ''instrumentation panic in BeforeClientDo'' p]
               | Inr ctx \<Rightarrow>
                   if ctx = NilContext
                   then [CallGetParam 1, CallClientStart (parentContext req) req,
                         CallLoggerError ''instrumentation panic in BeforeClientDo''
                           ''cannot create context from nil parent'']
                   else
                     [CallGetParam 1, CallClientStart (parentContext req) req,
                      CallSetParam 1 (RequestPtr (Some (Request (RequestData req)
                         (WithValue ctx clientContextKey
                            (ClientInstrPtr (Some (ClientInstrumentationContext (Now E) req ctx)))))))]
                     @ (case SetParam ictx 1 (RequestPtr (Some (Request (RequestData req)
                         (WithValue ctx clientContextKey
                            (ClientInstrPtr (Some (ClientInstrumentationContext (Now E) req ctx))))))) of
                          None \<Rightarrow> []
                        | Some p \<Rightarrow> [CallLoggerError ''instrumentation panic in BeforeClientDo'' p]))
          | _ \<Rightarrow> [CallGetParam 1]))"
  by (simp add: new_events_def BeforeClientDo_def recovering_eq BeforeClientDo_body_eq Let_def
      split: sum.splits dyn.splits option.splits)

text \<open>
  Claim C7, as amended. \<open>BeforeClientDo\<close> calls \<open>SetParam\<close> at most once and only on index 1. When
  parameter 1 is not a non-nil request it makes no such call. When parameter 1 is a non-nil
  request \<open>req\<close> and the instrumenter's \<open>Start\<close> returns a non-nil context \<open>ctx\<close>, the one
  call is \<open>SetParam(1, r')\<close>, where \<open>r'\<close> is \<open>req\<close> with a context that holds, under
  \<open>clientContextKey\<close>, the instrumentation state made of the start time, \<open>req\<close> and \<open>ctx\<close>.
  When \<open>Start\<close> panics or returns a nil context (on which \<open>context.WithValue\<close> panics),
  \<open>SetParam\<close> is not called: the hook has then made exactly three calls, \<open>GetParam(1)\<close>,
  \<open>Start\<close> and the logger call of the deferred handler with the recovered panic, and it
  returns normally unless that logger call panics.
\<close>

lemma BeforeClientDo_outcome:
  "snd (BeforeClientDo E ictx client w) =
     (case snd (BeforeClientDo_body E ictx client w) of
        Inr u \<Rightarrow> Inr ()
      | Inl rec \<Rightarrow>
          (case loggerError E ''instrumentation panic in BeforeClientDo'' rec of
             None \<Rightarrow> Inr () | Some p \<Rightarrow> Inl p))"
  unfolding BeforeClientDo_def by (rule recovering_outcome)

lemma BeforeClientDo_start_panics:
  assumes "GetParam ictx 1 = Inr (RequestPtr (Some rq))"
    and "clientStart E (parentContext rq) rq = Inl p"
  shows "new_events (BeforeClientDo E ictx client) w
           = [CallGetParam 1, CallClientStart (parentContext rq) rq,
              CallLoggerError ''instrumentation panic in BeforeClientDo'' p]"
    and "snd (BeforeClientDo E ictx client w)
           = (case loggerError E ''instrumentation panic in BeforeClientDo'' p of
                None \<Rightarrow> Inr () | Some q \<Rightarrow> Inl q)"
  using assms
  by (simp_all add: BeforeClientDo_events BeforeClientDo_outcome BeforeClientDo_body_eq Let_def)

lemma BeforeClientDo_start_nil:
  assumes "GetParam ictx 1 = Inr (RequestPtr (Some rq))"
    and "clientStart E (parentContext rq) rq = Inr NilContext"
  shows "new_events (BeforeClientDo E ictx client) w
           = [CallGetParam 1, CallClientStart (parentContext rq) rq,
              CallLoggerError ''instrumentation panic in BeforeClientDo''
                ''cannot create context from nil parent'']"
    and "snd (BeforeClientDo E ictx client w)
           = (case loggerError E ''instrumentation panic in BeforeClientDo''
                     ''cannot create context from nil parent'' of
                None \<Rightarrow> Inr () | Some q \<Rightarrow> Inl q)"
  using assms
  by (simp_all add: BeforeClientDo_events BeforeClientDo_outcome BeforeClientDo_body_eq Let_def)

theorem BeforeClientDo_writes_back_param_1_only:
  "(\<forall>i v. CallSetParam i v \<in> set (new_events (BeforeClientDo E ictx client) w) \<longrightarrow> i = 1)
   \<and> length (filter is_SetParam (new_events (BeforeClientDo E ictx client) w)) \<le> 1
   \<and> ((\<forall>r. GetParam ictx 1 \<noteq> Inr (RequestPtr (Some r))) \<longrightarrow>
         filter is_SetParam (new_events (BeforeClientDo E ictx client) w) = [])
   \<and> (GetParam ictx 1 = Inr (RequestPtr (Some req))
        \<and> clientStart E (parentContext req) req = Inr ctx \<and> ctx \<noteq> NilContext \<longrightarrow>
         (\<exists>newReq instrCtx.
             filter is_SetParam (new_events (BeforeClientDo E ictx client) w)
               = [CallSetParam 1 (RequestPtr (Some newReq))]
           \<and> RequestData newReq = RequestData req
           \<and> Value (Context newReq) clientContextKey = ClientInstrPtr (Some instrCtx)
           \<and> c_request instrCtx = req \<and> c_ctx instrCtx = ctx \<and> c_startTime instrCtx = Now E))
   \<and> (GetParam ictx 1 = Inr (RequestPtr (Some req'))
        \<and> (\<forall>c. clientStart E (parentContext req') req' = Inr c \<longrightarrow> c = NilContext) \<longrightarrow>
         filter is_SetParam (new_events (BeforeClientDo E ictx client) w) = [])
   \<and> (GetParam ictx 1 = Inr (RequestPtr (Some rq))
        \<and> clientStart E (parentContext rq) rq = Inl p \<longrightarrow>
         new_events (BeforeClientDo E ictx client) w
           = [CallGetParam 1, CallClientStart (parentContext rq) rq,
              CallLoggerError ''instrumentation panic in BeforeClientDo'' p]
         \<and> snd (BeforeClientDo E ictx client w)
           = (case loggerError E ''instrumentation panic in BeforeClientDo'' p of
                None \<Rightarrow> Inr () | Some q \<Rightarrow> Inl q))
   \<and> (GetParam ictx 1 = Inr (RequestPtr (Some rq'))
        \<and> clientStart E (parentContext rq') rq' = Inr NilContext \<longrightarrow>
         new_events (BeforeClientDo E ictx client) w
           = [CallGetParam 1, CallClientStart (parentContext rq') rq',
              CallLoggerError ''instrumentation panic in BeforeClientDo''
                ''cannot create context from nil parent'']
         \<and> snd (BeforeClientDo E ictx client w)
           = (case loggerError E ''instrumentation panic in BeforeClientDo''
                     ''cannot create context from nil parent'' of
                None \<Rightarrow> Inr () | Some q \<Rightarrow> Inl q))"
proof -
  have main: "(\<forall>i v. CallSetParam i v \<in> set (new_events (BeforeClientDo E ictx client) w) \<longrightarrow> i = 1)
   \<and> length (filter is_SetParam (new_events (BeforeClientDo E ictx client) w)) \<le> 1
   \<and> ((\<forall>r. GetParam ictx 1 \<noteq> Inr (RequestPtr (Some r))) \<longrightarrow>
         filter is_SetParam (new_events (BeforeClientDo E ictx client) w) = [])
   \<and> (GetParam ictx 1 = Inr (RequestPtr (Some req))
        \<and> clientStart E (parentContext req) req = Inr ctx \<and> ctx \<noteq> NilContext \<longrightarrow>
         (\<exists>newReq instrCtx.
             filter is_SetParam (new_events (BeforeClientDo E ictx client) w)
               = [CallSetParam 1 (RequestPtr (Some newReq))]
           \<and> RequestData newReq = RequestData req
           \<and> Value (Context newReq) clientContextKey = ClientInstrPtr (Some instrCtx)
           \<and> c_request instrCtx = req \<and> c_ctx instrCtx = ctx \<and> c_startTime instrCtx = Now E))
   \<and> (GetParam ictx 1 = Inr (RequestPtr (Some req'))
        \<and> (\<forall>c. clientStart E (parentContext req') req' = Inr c \<longrightarrow> c = NilContext) \<longrightarrow>
         filter is_SetParam (new_events (BeforeClientDo E ictx client) w) = [])"
    by (auto simp: BeforeClientDo_events Context_def
        split: sum.splits dyn.splits option.splits)
  from main BeforeClientDo_start_panics [of ictx rq E p client w]
    BeforeClientDo_start_nil [of ictx rq' E client w]
  show ?thesis by blast
qed

lemma quiet_before_events:
  "new_events (BeforeClientDo quietCollaborators clientHookContext NilAny) emptyWorld
     = [CallGetParam 1, CallClientStart Background sampleRequest,
        CallSetParam 1 (RequestPtr (Some instrumentedRequest))]"
  by (simp add: BeforeClientDo_events quietCollaborators_def clientHookContext_def
      sampleRequest_def instrumentedRequest_def parentContext_def Context_def spanContext_def)

lemma failing_before_events:
  "new_events (BeforeClientDo failingCollaborators clientHookContext NilAny) emptyWorld
     = [CallGetParam 1, CallClientStart Background sampleRequest,
        CallLoggerError ''instrumentation panic in BeforeClientDo'' ''nil pointer dereference'']"
  by (simp add: BeforeClientDo_events failingCollaborators_def quietCollaborators_def
      clientHookContext_def sampleRequest_def parentContext_def Context_def)

text \<open>
  Claim C7 at a request, once with an instrumenter that returns (one write-back, of the
  request with the instrumentation state in its context) and once with an instrumenter
  whose \<open>Start\<close> panics (three calls, no write-back, normal return).
\<close>

theorem BeforeClientDo_writes_back_param_1_only_witness:
  "GetParam clientHookContext 1 = Inr (RequestPtr (Some sampleRequest))
   \<and> clientStart quietCollaborators (parentContext sampleRequest) sampleRequest
       = Inr (spanContext Background)
   \<and> spanContext Background \<noteq> NilContext
   \<and> new_events (BeforeClientDo quietCollaborators clientHookContext NilAny) emptyWorld
       = [CallGetParam 1, CallClientStart Background sampleRequest,
          CallSetParam 1 (RequestPtr (Some instrumentedRequest))]
   \<and> (\<exists>newReq instrCtx.
         filter is_SetParam
             (new_events (BeforeClientDo quietCollaborators clientHookContext NilAny) emptyWorld)
           = [CallSetParam 1 (RequestPtr (Some newReq))]
       \<and> RequestData newReq = RequestData sampleRequest
       \<and> Value (Context newReq) clientContextKey = ClientInstrPtr (Some instrCtx)
       \<and> c_request instrCtx = sampleRequest)
   \<and> clientStart failingCollaborators (parentContext sampleRequest) sampleRequest
       = Inl ''nil pointer dereference''
   \<and> new_events (BeforeClientDo failingCollaborators clientHookContext NilAny) emptyWorld
       = [CallGetParam 1, CallClientStart (parentContext sampleRequest) sampleRequest,
          CallLoggerError ''instrumentation panic in BeforeClientDo'' ''nil pointer dereference'']
   \<and> snd (BeforeClientDo failingCollaborators clientHookContext NilAny emptyWorld) = Inr ()"
proof -
  note inst = BeforeClientDo_writes_back_param_1_only
    [of quietCollaborators clientHookContext NilAny emptyWorld sampleRequest
        "spanContext Background" sampleRequest]
  note inst' = BeforeClientDo_writes_back_param_1_only
    [of failingCollaborators clientHookContext NilAny emptyWorld sampleRequest
        "spanContext Background" sampleRequest sampleRequest "''nil pointer dereference''"
        sampleRequest]
  have h: "GetParam clientHookContext 1 = Inr (RequestPtr (Some sampleRequest))"
    "clientStart quietCollaborators (parentContext sampleRequest) sampleRequest
       = Inr (spanContext Background)"
    "spanContext Background \<noteq> NilContext"
    by (simp_all add: clientHookContext_def quietCollaborators_def parentContext_def
        Context_def sampleRequest_def spanContext_def)
  have h': "clientStart failingCollaborators (parentContext sampleRequest) sampleRequest
       = Inl ''nil pointer dereference''"
    and lg: "loggerError failingCollaborators ''instrumentation panic in BeforeClientDo''
       ''nil pointer dereference'' = None"
    by (simp_all add: failingCollaborators_def quietCollaborators_def)
  from inst h have ok: "\<exists>newReq instrCtx.
         filter is_SetParam
             (new_events (BeforeClientDo quietCollaborators clientHookContext NilAny) emptyWorld)
           = [CallSetParam 1 (RequestPtr (Some newReq))]
       \<and> RequestData newReq = RequestData sampleRequest
       \<and> Value (Context newReq) clientContextKey = ClientInstrPtr (Some instrCtx)
       \<and> c_request instrCtx = sampleRequest"
    by blast
  from inst' h(1) h' have
    ev: "new_events (BeforeClientDo failingCollaborators clientHookContext NilAny) emptyWorld
       = [CallGetParam 1, CallClientStart (parentContext sampleRequest) sampleRequest,
          CallLoggerError ''instrumentation panic in BeforeClientDo'' ''nil pointer dereference'']"
    and out: "snd (BeforeClientDo failingCollaborators clientHookContext NilAny emptyWorld)
       = (case loggerError failingCollaborators ''instrumentation panic in BeforeClientDo''
                 ''nil pointer dereference'' of
            None \<Rightarrow> Inr () | Some q \<Rightarrow> Inl q)"
    by blast+
  from out lg have out': "snd (BeforeClientDo failingCollaborators clientHookContext NilAny emptyWorld)
       = Inr ()"
    by simp
  from ok h h' quiet_before_events ev out' show ?thesis
    by (simp only: simp_thms)
qed

text \<open>
  Claim C7 as stated says that \<open>SetParam(1, r')\<close> is called whenever parameter 1 holds a
  non-nil request; when the instrumenter's \<open>Start\<close> panics on that request, the hook logs
  the recovered panic and returns without calling \<open>SetParam\<close>.
\<close>

theorem BeforeClientDo_start_panic_counterexample:
  "GetParam clientHookContext 1 = Inr (RequestPtr (Some sampleRequest))
   \<and> new_events (BeforeClientDo failingCollaborators clientHookContext NilAny) emptyWorld
       = [CallGetParam 1, CallClientStart Background sampleRequest,
          CallLoggerError ''instrumentation panic in BeforeClientDo'' ''nil pointer dereference'']
   \<and> filter is_SetParam
        (new_events (BeforeClientDo failingCollaborators clientHookContext NilAny) emptyWorld) = []
   \<and> snd (BeforeClientDo failingCollaborators clientHookContext NilAny emptyWorld) = Inr ()"
proof -
  have g: "GetParam clientHookContext 1 = Inr (RequestPtr (Some sampleRequest))"
    by (simp add: clientHookContext_def)
  have lg: "loggerError failingCollaborators ''instrumentation panic in BeforeClientDo''
       ''nil pointer dereference'' = None"
    by (simp add: failingCollaborators_def quietCollaborators_def)
  have out: "snd (BeforeClientDo failingCollaborators clientHookContext NilAny emptyWorld) = Inr ()"
    unfolding BeforeClientDo_outcome failing_body_panics by (simp add: lg)
  show ?thesis by (simp add: failing_before_events g out)
qed

lemma emits_only_ret: "emits_only P (ret x)"
  by (simp add: emits_only_def ret_def)

lemma emits_only_throw: "emits_only P (throw p)"
  by (simp add: emits_only_def throw_def)

lemma emits_only_outcome: "emits_only P (outcome r)"
  by (simp add: emits_only_def outcome_def)

lemma emits_only_completion: "emits_only P (completion r)"
  by (simp add: completion_def emits_only_ret emits_only_throw split: option.splits)

lemma emits_only_emit: "P e \<Longrightarrow> emits_only P (emit e)"
  by (simp add: emits_only_def emit_def)

lemma emits_only_bind:
  assumes m: "emits_only P m"
    and f: "\<And>x. (\<exists>w w'. m w = (w', Inr x)) \<Longrightarrow> emits_only P (f x)"
  shows "emits_only P (bind m f)"
  unfolding emits_only_def
proof
  fix w
  obtain w' r where mw: "m w = (w', r)" by (cases "m w")
  from m obtain evs where e1: "trace (fst (m w)) = trace w @ evs" "list_all P evs"
    unfolding emits_only_def by blast
  show "\<exists>evs. trace (fst (bind m f w)) = trace w @ evs \<and> list_all P evs"
  proof (cases r)
    case (Inl p)
    with mw e1 show ?thesis by (auto simp: bind_def)
  next
    case (Inr x)
    with mw have "emits_only P (f x)" by (intro f) blast
    then obtain evs' where e2: "trace (fst (f x w')) = trace w' @ evs'" "list_all P evs'"
      unfolding emits_only_def by blast
    with mw e1 Inr have "trace (fst (bind m f w)) = trace w @ (evs @ evs')"
      "list_all P (evs @ evs')"
      by (auto simp: bind_def)
    then show ?thesis by blast
  qed
qed

lemma emits_only_recovering:
  assumes "emits_only P body" and "\<And>rec. P (CallLoggerError msg rec)"
  shows "emits_only P (recovering E msg body)"
  unfolding emits_only_def
proof
  fix w
  obtain w' r where bw: "body w = (w', r)" by (cases "body w")
  from assms(1) obtain evs where e1: "trace (fst (body w)) = trace w @ evs" "list_all P evs"
    unfolding emits_only_def by blast
  show "\<exists>evs. trace (fst (recovering E msg body w)) = trace w @ evs \<and> list_all P evs"
  proof (cases r)
    case (Inl rec)
    with bw e1 assms(2) [of rec]
    have "trace (fst (recovering E msg body w)) = trace w @ (evs @ [CallLoggerError msg rec])"
      "list_all P (evs @ [CallLoggerError msg rec])"
      by (auto simp: recovering_def go_defs split: option.splits)
    then show ?thesis by blast
  next
    case (Inr u)
    with bw e1 show ?thesis by (auto simp: recovering_def)
  qed
qed

lemma callGetParam_result:
  "callGetParam ictx i w = (w', Inr v) \<Longrightarrow> GetParam ictx i = Inr v"
  by (auto simp: go_defs)

lemma callGetReturnValCount_result:
  "callGetReturnValCount ictx w = (w', Inr n) \<Longrightarrow> GetReturnValCount ictx = Inr n"
  by (auto simp: go_defs)

lemma emits_only_callGetParam: "P (CallGetParam i) \<Longrightarrow> emits_only P (callGetParam ictx i)"
  by (simp add: callGetParam_def emits_only_bind emits_only_emit emits_only_outcome)

lemma emits_only_callGetReturnValCount:
  "P CallGetReturnValCount \<Longrightarrow> emits_only P (callGetReturnValCount ictx)"
  by (simp add: callGetReturnValCount_def emits_only_bind emits_only_emit emits_only_outcome)

lemma emits_only_callGetReturnVal:
  "P (CallGetReturnVal i) \<Longrightarrow> emits_only P (callGetReturnVal ictx i)"
  by (simp add: callGetReturnVal_def emits_only_bind emits_only_emit emits_only_outcome)

lemma emits_only_callClientEnd:
  "P (CallClientEnd c i) \<Longrightarrow> emits_only P (callClientEnd E c i)"
  by (simp add: callClientEnd_def emits_only_bind emits_only_emit emits_only_completion)

lemma read_resp_emits: "emits_only (after_event_ok ictx) (read_resp ictx)"
  unfolding read_resp_def
  by (auto intro!: emits_only_bind emits_only_callGetReturnValCount emits_only_callGetReturnVal
      emits_only_ret dest!: callGetReturnValCount_result
      simp: after_event_ok_def split: prod.splits)

lemma read_err_emits: "emits_only (after_event_ok ictx) (read_err ictx)"
  unfolding read_err_def
  by (auto intro!: emits_only_bind emits_only_callGetReturnValCount emits_only_callGetReturnVal
      emits_only_ret dest!: callGetReturnValCount_result
      simp: after_event_ok_def split: prod.splits)

lemma assert_Request_Some: "assert_Request v = (Some r, ok) \<Longrightarrow> v = RequestPtr (Some r)"
  by (cases v) auto

lemma assert_clientInstr_Some:
  "assert_clientInstr v = (Some ic, ok) \<Longrightarrow> v = ClientInstrPtr (Some ic)"
  by (cases v) auto

lemma AfterClientDo_body_emits:
  "emits_only (after_event_ok ictx) (AfterClientDo_body E ictx client)"
  unfolding AfterClientDo_body_def
proof (rule emits_only_bind)
  show "emits_only (after_event_ok ictx) (callGetParam ictx 1)"
    by (simp add: emits_only_callGetParam after_event_ok_def)
next
  fix v
  assume "\<exists>w w'. callGetParam ictx 1 w = (w', Inr v)"
  then have gp: "GetParam ictx 1 = Inr v" by (auto dest: callGetParam_result)
  show "emits_only (after_event_ok ictx)
     (case assert_Request v of
         (None, ok) \<Rightarrow> ret ()
       | (Some req, ok) \<Rightarrow>
           if \<not> ok then ret ()
           else
             bind (read_resp ictx) (\<lambda>resp.
             bind (read_err ictx) (\<lambda>err.
               let ctx = Context req
               in if ctx = NilContext then ret ()
                  else
                    let instrCtxVal = Value ctx clientContextKey
                    in if instrCtxVal = NilValue then ret ()
                       else
                         case assert_clientInstr instrCtxVal of
                           (p, False) \<Rightarrow> ret ()
                         | (None, True) \<Rightarrow> throw ''nil pointer dereference''
                         | (Some instrCtx, True) \<Rightarrow>
                             let clientResp = \<lparr>CR_Response = resp, CR_Err = err\<rparr>;
                                 invocation = \<lparr>CI_Request = c_request instrCtx,
                                               CI_Response = clientResp,
                                               CI_Err = err,
                                               CI_StartTimeStamp = c_startTime instrCtx,
                                               CI_EndTimeStamp = Now E\<rparr>
                             in callClientEnd E (c_ctx instrCtx) invocation)))"
  proof (cases "assert_Request v")
    case (Pair p ok)
    show ?thesis
    proof (cases p)
      case None
      with Pair show ?thesis by (simp add: emits_only_ret)
    next
      case (Some req)
      with Pair gp have g: "GetParam ictx 1 = Inr (RequestPtr (Some req))"
        by (auto dest: assert_Request_Some)
      have tail: "emits_only (after_event_ok ictx)
          (let ctx = Context req
               in if ctx = NilContext then ret ()
                  else
                    let instrCtxVal = Value ctx clientContextKey
                    in if instrCtxVal = NilValue then ret ()
                       else
                         case assert_clientInstr instrCtxVal of
                           (p, False) \<Rightarrow> ret ()
                         | (None, True) \<Rightarrow> throw ''nil pointer dereference''
                         | (Some instrCtx, True) \<Rightarrow>
                             let clientResp = \<lparr>CR_Response = resp, CR_Err = err\<rparr>;
                                 invocation = \<lparr>CI_Request = c_request instrCtx,
                                               CI_Response = clientResp,
                                               CI_Err = err,
                                               CI_StartTimeStamp = c_startTime instrCtx,
                                               CI_EndTimeStamp = Now E\<rparr>
                             in callClientEnd E (c_ctx instrCtx) invocation)" for resp err
      proof (cases "assert_clientInstr (Value (Context req) clientContextKey)")
        case (Pair q ok')
        show ?thesis
        proof (cases q)
          case None
          with Pair show ?thesis
            by (simp add: Let_def emits_only_ret emits_only_throw split: bool.splits)
        next
          case (Some ic)
          with Pair have "Value (Context req) clientContextKey = ClientInstrPtr (Some ic)"
            by (auto dest: assert_clientInstr_Some)
          with g have "storedClientContext ictx"
            unfolding storedClientContext_def by blast
          with Pair Some show ?thesis
            by (simp add: Let_def emits_only_ret emits_only_callClientEnd after_event_ok_def split: bool.splits)
        qed
      qed
      from Pair Some show ?thesis
        by (auto intro!: emits_only_bind read_resp_emits read_err_emits tail
            simp: emits_only_ret)
    qed
  qed
qed

lemma AfterClientDo_emits:
  "emits_only (after_event_ok ictx) (AfterClientDo E ictx client)"
  unfolding AfterClientDo_def
  by (rule emits_only_recovering [OF AfterClientDo_body_emits]) (simp add: after_event_ok_def)

lemma emits_only_new_events:
  "emits_only P m \<Longrightarrow> list_all P (new_events m w)"
  by (auto simp: emits_only_def new_events_def dest: spec [of _ w])

text \<open>
  Claim C9. \<open>AfterClientDo\<close> calls the instrumenter's \<open>End\<close> only when parameter 1 is a
  non-nil request whose context holds a non-nil \<open>*clientInstrumentationContext\<close> under
  \<open>clientContextKey\<close>; whatever the input, all it does besides is read the HookContext and,
  after a recovered panic, call the logger. It calls \<open>GetReturnVal(i)\<close> only for an index
  below \<open>GetReturnValCount()\<close>: index 0 only when the count is at least 1, index 1 only when
  it is at least 2.
\<close>

theorem AfterClientDo_ends_only_with_stored_context:
  "((\<exists>e \<in> set (new_events (AfterClientDo E ictx client) w). is_ClientEnd e) \<longrightarrow>
       (\<exists>r ic. GetParam ictx 1 = Inr (RequestPtr (Some r))
              \<and> Value (Context r) clientContextKey = ClientInstrPtr (Some ic)))
   \<and> (\<forall>e \<in> set (new_events (AfterClientDo E ictx client) w).
         is_read e \<or> is_LoggerError e \<or> is_ClientEnd e)
   \<and> (\<forall>i. CallGetReturnVal i \<in> set (new_events (AfterClientDo E ictx client) w) \<longrightarrow>
         (\<exists>n. GetReturnValCount ictx = Inr n \<and> 0 \<le> i \<and> i < n))
   \<and> (CallGetReturnVal 0 \<in> set (new_events (AfterClientDo E ictx client) w) \<longrightarrow>
         (\<exists>n. GetReturnValCount ictx = Inr n \<and> n \<ge> 1))
   \<and> (CallGetReturnVal 1 \<in> set (new_events (AfterClientDo E ictx client) w) \<longrightarrow>
         (\<exists>n. GetReturnValCount ictx = Inr n \<and> n \<ge> 2))"
proof -
  have "list_all (after_event_ok ictx) (new_events (AfterClientDo E ictx client) w)"
    by (rule emits_only_new_events [OF AfterClientDo_emits])
  then have ok: "\<And>e. e \<in> set (new_events (AfterClientDo E ictx client) w) \<Longrightarrow> after_event_ok ictx e"
    by (simp add: list_all_iff)
  show ?thesis
  proof (intro conjI impI ballI allI)
    assume "\<exists>e \<in> set (new_events (AfterClientDo E ictx client) w). is_ClientEnd e"
    then obtain e where "e \<in> set (new_events (AfterClientDo E ictx client) w)" "is_ClientEnd e"
      by blast
    with ok [of e] show "\<exists>r ic. GetParam ictx 1 = Inr (RequestPtr (Some r))
              \<and> Value (Context r) clientContextKey = ClientInstrPtr (Some ic)"
      by (simp add: after_event_ok_def storedClientContext_def)
  next
    fix e assume "e \<in> set (new_events (AfterClientDo E ictx client) w)"
    with ok [of e] show "is_read e \<or> is_LoggerError e \<or> is_ClientEnd e"
      by (simp add: after_event_ok_def)
  next
    fix i assume "CallGetReturnVal i \<in> set (new_events (AfterClientDo E ictx client) w)"
    with ok [of "CallGetReturnVal i"]
    show "\<exists>n. GetReturnValCount ictx = Inr n \<and> 0 \<le> i \<and> i < n"
      by (simp add: after_event_ok_def)
  next
    assume "CallGetReturnVal 0 \<in> set (new_events (AfterClientDo E ictx client) w)"
    with ok [of "CallGetReturnVal 0"]
    show "\<exists>n. GetReturnValCount ictx = Inr n \<and> n \<ge> 1"
      by (auto simp: after_event_ok_def)
  next
    assume "CallGetReturnVal 1 \<in> set (new_events (AfterClientDo E ictx client) w)"
    with ok [of "CallGetReturnVal 1"]
    show "\<exists>n. GetReturnValCount ictx = Inr n \<and> n \<ge> 2"
      by (auto simp: after_event_ok_def)
  qed
qed

lemma after_events:
  "new_events (AfterClientDo quietCollaborators afterHookContext NilAny) emptyWorld
     = [CallGetParam 1, CallGetReturnValCount, CallGetReturnVal 0, CallGetReturnValCount,
        CallGetReturnVal 1,
        CallClientEnd (spanContext Background)
          \<lparr>CI_Request = sampleRequest,
           CI_Response = \<lparr>CR_Response = Some (Response 200), CR_Err = None\<rparr>,
           CI_Err = None, CI_StartTimeStamp = 7, CI_EndTimeStamp = 7\<rparr>]"
  by (simp add: new_events_def AfterClientDo_def recovering_eq AfterClientDo_body_def
      read_resp_def read_err_def go_defs Let_def afterHookContext_def clientHookContext_def
      quietCollaborators_def instrumentedRequest_def Context_def emptyWorld_def)

text \<open>
  Claim C9 at the request \<open>BeforeClientDo\<close> left behind and two return values: both are
  read and \<open>End\<close> is called with the stored context and request.
\<close>

theorem AfterClientDo_ends_only_with_stored_context_witness:
  "new_events (AfterClientDo quietCollaborators afterHookContext NilAny) emptyWorld
     = [CallGetParam 1, CallGetReturnValCount, CallGetReturnVal 0, CallGetReturnValCount,
        CallGetReturnVal 1,
        CallClientEnd (spanContext Background)
          \<lparr>CI_Request = sampleRequest,
           CI_Response = \<lparr>CR_Response = Some (Response 200), CR_Err = None\<rparr>,
           CI_Err = None, CI_StartTimeStamp = 7, CI_EndTimeStamp = 7\<rparr>]
   \<and> (\<exists>r ic. GetParam afterHookContext 1 = Inr (RequestPtr (Some r))
              \<and> Value (Context r) clientContextKey = ClientInstrPtr (Some ic))
   \<and> (\<exists>n. GetReturnValCount afterHookContext = Inr n \<and> n \<ge> 2)"
proof -
  note inst = AfterClientDo_ends_only_with_stored_context
    [of quietCollaborators afterHookContext NilAny emptyWorld]
  have e: "\<exists>e \<in> set (new_events (AfterClientDo quietCollaborators afterHookContext NilAny) emptyWorld).
             is_ClientEnd e"
    and v: "CallGetReturnVal 1
             \<in> set (new_events (AfterClientDo quietCollaborators afterHookContext NilAny) emptyWorld)"
    by (simp_all add: after_events)
  from inst e have "\<exists>r ic. GetParam afterHookContext 1 = Inr (RequestPtr (Some r))
              \<and> Value (Context r) clientContextKey = ClientInstrPtr (Some ic)"
    by blast
  moreover from inst v have "\<exists>n. GetReturnValCount afterHookContext = Inr n \<and> n \<ge> 2"
    by blast
  ultimately show ?thesis using after_events by simp
qed

end
